theory Spec2Isabelle
  imports Main "HOL-Library.Multiset"
begin

section \<open>Python values read by \<open>format_agent_response\<close>\<close>

text \<open>
  The only function of the repository with logic of its own is
  \<open>format_agent_response(response, user_question, model_name)\<close> in
  \<open>examples/format_response.py\<close>. It reads a dictionary, a list of message objects and
  three attributes of each message, and writes lines to standard output.

  A Python \<open>str\<close> is a sequence of Unicode code points, so a string is a list of
  naturals here (the source's literals hold code points above 255). \<open>ascii\<close> embeds an
  ASCII literal.
\<close>

type_synonym pystr = "nat list"

definition ascii :: "string \<Rightarrow> pystr" where
  "ascii s = map of_char s"

text \<open>
  The exceptions the operations of the function can raise: reading an attribute an
  object does not have and calling a method of \<open>None\<close> raise \<open>AttributeError\<close>,
  \<open>len(None)\<close> raises \<open>TypeError\<close>.
\<close>

datatype error = AttributeError | TypeError

text \<open>
  An attribute of an object is missing or holds a value; \<open>hasattr\<close> tests the first,
  reading it (\<open>getattr\<close>) raises when it is missing. A value that may be \<open>None\<close> is an
  \<open>option\<close>.
\<close>

datatype 'a attr = Missing | Attr 'a

fun hasattr :: "'a attr \<Rightarrow> bool" where
  "hasattr Missing = False"
| "hasattr (Attr v) = True"

fun getattr :: "'a attr \<Rightarrow> error + 'a" where
  "getattr Missing = Inl AttributeError"
| "getattr (Attr v) = Inr v"

text \<open>
  Truth value of \<open>None\<close>, a string, a list or a dictionary: \<open>None\<close> and the empty
  container are false. Strings, lists and dictionaries are all lists here.
\<close>

fun truthy :: "'a list option \<Rightarrow> bool" where
  "truthy None = False"
| "truthy (Some xs) = (xs \<noteq> [])"

fun py_len :: "'a list option \<Rightarrow> error + nat" where
  "py_len None = Inl TypeError"
| "py_len (Some xs) = Inr (length xs)"

text \<open>
  A dictionary is an association list; \<open>d.get(k, default)\<close> is \<open>py_get\<close>. The usage
  metadata of a message is a dictionary from field names to token counts.
\<close>

definition py_get :: "('k \<times> 'v) list \<Rightarrow> 'k \<Rightarrow> 'v \<Rightarrow> 'v" where
  "py_get d k dflt = (case map_of d k of None \<Rightarrow> dflt | Some v \<Rightarrow> v)"

type_synonym usage_dict = "(pystr \<times> int) list"

text \<open>
  A message: the three attributes the function looks at, each missing or present. Their
  values are those of the specification's data model: \<open>content\<close> is a string or
  \<open>None\<close>, \<open>tool_calls\<close> a list or \<open>None\<close>, \<open>usage_metadata\<close> a dictionary
  of integer token counts or \<open>None\<close>. The tool-call records are never inspected, only
  counted, so their type is a parameter. The response is a dictionary of which only the
  key \<open>messages\<close> is read.
\<close>

record 'tc message =
  content :: "pystr option attr"
  tool_calls :: "'tc list option attr"
  usage_metadata :: "usage_dict option attr"

type_synonym 'tc response = "(pystr \<times> 'tc message list) list"

section \<open>Extraction (lines 15 to 31)\<close>

text \<open>
  The local variables \<open>final_answer\<close>, \<open>tool_calls_count\<close> and \<open>token_usage\<close>
  after the two loops, and \<open>len(messages)\<close>. The specification calls this value the
  report, with the field names used here, and the code that computes it
  \<open>buildReport\<close>.
\<close>

record report =
  finalAnswer :: "pystr option"
  toolCallCount :: nat
  usage :: "usage_dict option"
  messageCount :: nat

text \<open>
  Lines 21 to 24, over \<open>reversed(messages)\<close>: the first message whose \<open>content\<close>
  attribute exists and is true sets \<open>final_answer\<close> and breaks the loop.
\<close>

fun final_answer_loop :: "'tc message list \<Rightarrow> pystr option \<Rightarrow> error + pystr option" where
  "final_answer_loop [] final_answer = Inr final_answer"
| "final_answer_loop (message # rest) final_answer =
     (if hasattr (content message) then
        (case getattr (content message) of
           Inl e \<Rightarrow> Inl e
         | Inr c \<Rightarrow>
             if truthy c \<and> final_answer = None then Inr c
             else final_answer_loop rest final_answer)
      else final_answer_loop rest final_answer)"

text \<open>Lines 28 and 29: the body's first statement.\<close>

definition count_tool_calls :: "'tc message \<Rightarrow> nat \<Rightarrow> error + nat" where
  "count_tool_calls message tool_calls_count =
     (if hasattr (tool_calls message) then
        (case getattr (tool_calls message) of
           Inl e \<Rightarrow> Inl e
         | Inr tc \<Rightarrow>
             if truthy tc then
               (case py_len tc of
                  Inl e \<Rightarrow> Inl e
                | Inr n \<Rightarrow> Inr (tool_calls_count + n))
             else Inr tool_calls_count)
      else Inr tool_calls_count)"

text \<open>Lines 30 and 31: the body's second statement. There is no test of the value.\<close>

definition get_usage :: "'tc message \<Rightarrow> usage_dict option \<Rightarrow> error + usage_dict option" where
  "get_usage message token_usage =
     (if hasattr (usage_metadata message) then getattr (usage_metadata message)
      else Inr token_usage)"

text \<open>Lines 27 to 31, over \<open>messages\<close> in order.\<close>

fun count_loop ::
  "'tc message list \<Rightarrow> nat \<Rightarrow> usage_dict option \<Rightarrow> error + (nat \<times> usage_dict option)" where
  "count_loop [] tool_calls_count token_usage = Inr (tool_calls_count, token_usage)"
| "count_loop (message # rest) tool_calls_count token_usage =
     (case count_tool_calls message tool_calls_count of
        Inl e \<Rightarrow> Inl e
      | Inr n \<Rightarrow>
          (case get_usage message token_usage of
             Inl e \<Rightarrow> Inl e
           | Inr u \<Rightarrow> count_loop rest n u))"

definition buildReport :: "'tc response \<Rightarrow> error + report" where
  "buildReport response =
     (let msgs = py_get response (ascii ''messages'') [] in
      case final_answer_loop (rev msgs) None of
        Inl e \<Rightarrow> Inl e
      | Inr fa \<Rightarrow>
          (case count_loop msgs 0 None of
             Inl e \<Rightarrow> Inl e
           | Inr (n, u) \<Rightarrow>
               Inr \<lparr>finalAnswer = fa, toolCallCount = n, usage = u,
                    messageCount = length msgs\<rparr>))"

section \<open>Rendering (lines 34 to 72)\<close>

text \<open>
  Python's \<open>str.split\<close> with a one-character separator (it never returns the empty
  list, so the first branch of the \<open>case\<close> below is not reached), \<open>str.strip()\<close>
  (which removes the characters \<open>str.isspace\<close> accepts from both ends), \<open>str.join\<close>
  and \<open>str\<close> of an integer. Called on \<open>None\<close>, \<open>split\<close> raises.
\<close>

fun split_on :: "nat \<Rightarrow> pystr \<Rightarrow> pystr list" where
  "split_on sep [] = [[]]"
| "split_on sep (c # cs) =
     (if c = sep then [] # split_on sep cs
      else (case split_on sep cs of
              [] \<Rightarrow> [[c]]
            | l # ls \<Rightarrow> (c # l) # ls))"

fun py_split :: "pystr option \<Rightarrow> nat \<Rightarrow> error + pystr list" where
  "py_split None sep = Inl AttributeError"
| "py_split (Some s) sep = Inr (split_on sep s)"

fun join_with :: "nat \<Rightarrow> pystr list \<Rightarrow> pystr" where
  "join_with sep [] = []"
| "join_with sep [l] = l"
| "join_with sep (l # ls) = l @ sep # join_with sep ls"

definition is_space :: "nat \<Rightarrow> bool" where
  "is_space c =
     ((9 \<le> c \<and> c \<le> 13) \<or> (28 \<le> c \<and> c \<le> 32) \<or> c = 0x85 \<or> c = 0xA0 \<or> c = 0x1680 \<or>
      (0x2000 \<le> c \<and> c \<le> 0x200A) \<or> c = 0x2028 \<or> c = 0x2029 \<or> c = 0x202F \<or>
      c = 0x205F \<or> c = 0x3000)"

definition py_strip :: "pystr \<Rightarrow> pystr" where
  "py_strip s = rev (dropWhile is_space (rev (dropWhile is_space s)))"

fun str_nat :: "nat \<Rightarrow> pystr" where
  "str_nat n = (if n < 10 then [48 + n] else str_nat (n div 10) @ [48 + n mod 10])"

declare str_nat.simps [simp del]

definition str_int :: "int \<Rightarrow> pystr" where
  "str_int i = (if i < 0 then 45 # str_nat (nat (- i)) else str_nat (nat i))"

text \<open>The colour codes of lines 7 to 12.\<close>

definition BLUE :: pystr where "BLUE = 27 # ascii ''[94m''"
definition RED :: pystr where "RED = 27 # ascii ''[91m''"
definition PURPLE :: pystr where "PURPLE = 27 # ascii ''[95m''"
definition DARK_GREY :: pystr where "DARK_GREY = 27 # ascii ''[90m''"
definition BOLD :: pystr where "BOLD = 27 # ascii ''[1m''"
definition RESET :: pystr where "RESET = 27 # ascii ''[0m''"

text \<open>
  Standard output is the list of the arguments of the \<open>print\<close> calls, in order; each is
  written followed by a line break (\<open>stdout_text\<close>). A \<open>print()\<close> without argument is
  the empty string.
\<close>

definition stdout_text :: "pystr list \<Rightarrow> pystr" where
  "stdout_text prints = concat (map (\<lambda>s. s @ [10]) prints)"

text \<open>
  Lines 34 to 36 and 72: the banner and the closing rule. Lines 39 to 41: the timestamp
  is the clock reading formatted by \<open>strftime\<close>, a parameter here.
\<close>

definition rule_line :: pystr where
  "rule_line = BLUE @ replicate 80 61 @ RESET"

definition print_header :: "pystr list" where
  "print_header =
     [10 # rule_line,
      BOLD @ BLUE @ ascii ''  '' @ [0x1F916] @ ascii '' 2ly Agent Response'' @ RESET,
      rule_line]"

definition print_timestamp :: "pystr \<Rightarrow> pystr \<Rightarrow> pystr list" where
  "print_timestamp timestamp model_name =
     [PURPLE @ [0x1F4C5] @ ascii '' Timestamp:'' @ RESET @ ascii '' '' @ timestamp,
      PURPLE @ [0x1F527] @ ascii '' Model:'' @ RESET @ ascii '' '' @ model_name]"

text \<open>Lines 44 and 45: the question is one \<open>print\<close> call.\<close>

definition print_question :: "pystr \<Rightarrow> pystr list" where
  "print_question user_question =
     [10 # BOLD @ BLUE @ [0x2753] @ ascii '' Question:'' @ RESET,
      DARK_GREY @ ascii ''   '' @ user_question @ RESET]"

text \<open>Lines 48 to 58.\<close>

definition answer_line :: "pystr \<Rightarrow> pystr" where
  "answer_line line =
     (if py_strip line \<noteq> [] then DARK_GREY @ ascii ''   '' @ py_strip line @ RESET
      else [])"

definition print_answer :: "pystr option \<Rightarrow> error + pystr list" where
  "print_answer final_answer =
     (case (if truthy final_answer then
              (case py_split final_answer 10 of
                 Inl e \<Rightarrow> Inl e
               | Inr lines \<Rightarrow> Inr (map answer_line lines))
            else Inr [RED @ ascii ''   No response found'' @ RESET]) of
        Inl e \<Rightarrow> Inl e
      | Inr body \<Rightarrow>
          Inr ((10 # BOLD @ BLUE @ [0x1F4AC] @ ascii '' Answer:'' @ RESET) # body))"

text \<open>
  Lines 61 to 70. \<open>token_usage.get(key, 'N/A')\<close> inside the f-string: the count in
  decimal, or the default.
\<close>

fun usage_get :: "usage_dict option \<Rightarrow> pystr \<Rightarrow> error + pystr" where
  "usage_get None key = Inl AttributeError"
| "usage_get (Some d) key =
     Inr (py_get (map (\<lambda>(k, v). (k, str_int v)) d) key (ascii ''N/A''))"

definition token_line :: "pystr \<Rightarrow> usage_dict option \<Rightarrow> pystr \<Rightarrow> error + pystr" where
  "token_line label token_usage key =
     (case usage_get token_usage key of
        Inl e \<Rightarrow> Inl e
      | Inr v \<Rightarrow>
          Inr (PURPLE @ ascii ''   '' @ [0x2022] @ label @ RESET @ ascii '' '' @ v))"

definition print_tokens :: "usage_dict option \<Rightarrow> error + pystr list" where
  "print_tokens token_usage =
     (if truthy token_usage then
        (case token_line (ascii '' Input tokens:'') token_usage (ascii ''input_tokens'') of
           Inl e \<Rightarrow> Inl e
         | Inr l1 \<Rightarrow>
        (case token_line (ascii '' Output tokens:'') token_usage (ascii ''output_tokens'') of
           Inl e \<Rightarrow> Inl e
         | Inr l2 \<Rightarrow>
        (case token_line (ascii '' Total tokens:'') token_usage (ascii ''total_tokens'') of
           Inl e \<Rightarrow> Inl e
         | Inr l3 \<Rightarrow> Inr [l1, l2, l3])))
      else Inr [])"

definition print_tool_calls :: "nat \<Rightarrow> pystr list" where
  "print_tool_calls tool_calls_count =
     (if tool_calls_count > 0 then
        [PURPLE @ ascii ''   '' @ [0x2022] @ ascii '' Tool calls made:'' @ RESET @ ascii '' '' @
         str_nat tool_calls_count]
      else [])"

definition print_total_messages :: "nat \<Rightarrow> pystr" where
  "print_total_messages n =
     PURPLE @ ascii ''   '' @ [0x2022] @ ascii '' Total messages:'' @ RESET @ ascii '' '' @
     str_nat n"

definition print_metadata :: "report \<Rightarrow> error + pystr list" where
  "print_metadata r =
     (case print_tokens (usage r) of
        Inl e \<Rightarrow> Inl e
      | Inr toks \<Rightarrow>
          Inr ((10 # BOLD @ BLUE @ [0x1F4CA] @ ascii '' Metadata:'' @ RESET) # toks @
               print_tool_calls (toolCallCount r) @
               [print_total_messages (messageCount r)]))"

definition renderReport :: "report \<Rightarrow> pystr \<Rightarrow> pystr \<Rightarrow> pystr \<Rightarrow> error + pystr list" where
  "renderReport r user_question model_name timestamp =
     (case print_answer (finalAnswer r) of
        Inl e \<Rightarrow> Inl e
      | Inr answer \<Rightarrow>
          (case print_metadata r of
             Inl e \<Rightarrow> Inl e
           | Inr metadata \<Rightarrow>
               Inr (print_header @ print_timestamp timestamp model_name @
                    print_question user_question @ answer @ metadata @
                    [rule_line @ [10]])))"

text \<open>
  The whole function: the arguments of its \<open>print\<close> calls, or the exception it raises.
\<close>

definition format_agent_response ::
  "'tc response \<Rightarrow> pystr \<Rightarrow> pystr \<Rightarrow> pystr \<Rightarrow> error + pystr list" where
  "format_agent_response response user_question model_name timestamp =
     (case buildReport response of
        Inl e \<Rightarrow> Inl e
      | Inr r \<Rightarrow> renderReport r user_question model_name timestamp)"

section \<open>Vocabulary of the claims\<close>

text \<open>
  The message sequence the function works on: \<open>response.get('messages', [])\<close>.
\<close>

definition messages_of :: "'tc response \<Rightarrow> 'tc message list" where
  "messages_of response = py_get response (ascii ''messages'') []"

text \<open>
  The non-empty content of a message, if it has one; the length of its tool-call list,
  counting a missing attribute, \<open>None\<close> and the empty list as 0; and the
  usage-metadata record it carries, if its attribute holds one.
\<close>

definition content_text :: "'tc message \<Rightarrow> pystr option" where
  "content_text m =
     (case content m of
        Missing \<Rightarrow> None
      | Attr None \<Rightarrow> None
      | Attr (Some s) \<Rightarrow> if s = [] then None else Some s)"

definition tool_call_len :: "'tc message \<Rightarrow> nat" where
  "tool_call_len m =
     (case tool_calls m of
        Missing \<Rightarrow> 0
      | Attr None \<Rightarrow> 0
      | Attr (Some tcs) \<Rightarrow> length tcs)"

definition usage_record :: "'tc message \<Rightarrow> usage_dict option" where
  "usage_record m =
     (case usage_metadata m of
        Missing \<Rightarrow> None
      | Attr v \<Rightarrow> v)"

text \<open>
  The usage accumulator after a forward pass that starts from \<open>u\<close>: every message
  that has the attribute overwrites it with the attribute's value.
\<close>

fun last_usage :: "'tc message list \<Rightarrow> usage_dict option \<Rightarrow> usage_dict option" where
  "last_usage [] u = u"
| "last_usage (m # ms) u =
     last_usage ms (case usage_metadata m of Missing \<Rightarrow> u | Attr v \<Rightarrow> v)"

text \<open>
  A token count as the metadata section shows it: the value in decimal, or \<open>N/A\<close>
  when the record has no such key.
\<close>

definition show_tokens :: "usage_dict \<Rightarrow> pystr \<Rightarrow> pystr" where
  "show_tokens d key = (case map_of d key of None \<Rightarrow> ascii ''N/A'' | Some v \<Rightarrow> str_int v)"

text \<open>
  A text with each of its lines indented by three spaces, as the specification describes
  the question block.
\<close>

definition indent_lines :: "pystr \<Rightarrow> pystr" where
  "indent_lines q = join_with 10 (map (\<lambda>l. ascii ''   '' @ l) (split_on 10 q))"

text \<open>A message of a concrete run, with tool calls numbered.\<close>

definition msg ::
  "pystr option attr \<Rightarrow> nat list option attr \<Rightarrow> usage_dict option attr \<Rightarrow> nat message" where
  "msg c t u = \<lparr>content = c, tool_calls = t, usage_metadata = u\<rparr>"

text \<open>The number a string of decimal digits denotes.\<close>

definition decimal_value :: "pystr \<Rightarrow> nat" where
  "decimal_value s = foldl (\<lambda>a c. 10 * a + (c - 48)) 0 s"

section \<open>The loops and the output sections in closed form\<close>

lemma final_answer_loop_find:
  "final_answer_loop ms None =
     Inr (case List.find (\<lambda>m. content_text m \<noteq> None) ms of
            None \<Rightarrow> None | Some m \<Rightarrow> content_text m)"
  by (induction ms) (auto simp: content_text_def split: attr.splits option.splits)

lemma count_tool_calls_eq: "count_tool_calls m n = Inr (n + tool_call_len m)"
  by (auto simp: count_tool_calls_def tool_call_len_def split: attr.splits option.splits)

lemma get_usage_eq:
  "get_usage m u = Inr (case usage_metadata m of Missing \<Rightarrow> u | Attr v \<Rightarrow> v)"
  by (auto simp: get_usage_def split: attr.splits)

lemma count_loop_eq:
  "count_loop ms n u = Inr (n + sum_list (map tool_call_len ms), last_usage ms u)"
  by (induction ms arbitrary: n u)
     (simp_all add: count_tool_calls_eq get_usage_eq)

lemma buildReport_eq:
  "buildReport response =
     Inr \<lparr>finalAnswer =
            (case List.find (\<lambda>m. content_text m \<noteq> None) (rev (messages_of response)) of
               None \<Rightarrow> None | Some m \<Rightarrow> content_text m),
          toolCallCount = sum_list (map tool_call_len (messages_of response)),
          usage = last_usage (messages_of response) None,
          messageCount = length (messages_of response)\<rparr>"
  by (simp add: buildReport_def messages_of_def Let_def final_answer_loop_find count_loop_eq)

lemma find_rev_highest:
  "k < length ms \<Longrightarrow> P (ms ! k) \<Longrightarrow> (\<forall>j. k < j \<and> j < length ms \<longrightarrow> \<not> P (ms ! j)) \<Longrightarrow>
   List.find P (rev ms) = Some (ms ! k)"
proof (induction ms rule: rev_induct)
  case Nil
  then show ?case by simp
next
  case (snoc x xs)
  show ?case
  proof (cases "k = length xs")
    case True
    with snoc.prems show ?thesis by simp
  next
    case False
    with snoc.prems have k: "k < length xs" by simp
    from snoc.prems(3) k have nx: "\<not> P x"
      by (metis length_append_singleton lessI nth_append_length)
    have "\<forall>j. k < j \<and> j < length xs \<longrightarrow> \<not> P (xs ! j)"
    proof (intro allI impI)
      fix j assume j: "k < j \<and> j < length xs"
      then have "\<not> P ((xs @ [x]) ! j)" using snoc.prems(3) by simp
      with j show "\<not> P (xs ! j)" by (simp add: nth_append)
    qed
    with snoc.IH k snoc.prems(2) have "List.find P (rev xs) = Some (xs ! k)"
      by (simp add: nth_append)
    with nx k show ?thesis by (simp add: nth_append)
  qed
qed

lemma find_none: "(\<forall>m \<in> set ms. \<not> P m) \<Longrightarrow> List.find P ms = None"
  by (induction ms) auto

lemma find_append_none:
  "(\<forall>m \<in> set later. \<not> P m) \<Longrightarrow> List.find P (rev (ms @ later)) = List.find P (rev ms)"
  by (induction later rule: rev_induct) auto

lemma last_usage_append: "last_usage (xs @ ys) u = last_usage ys (last_usage xs u)"
  by (induction xs arbitrary: u) simp_all

lemma last_usage_missing:
  "(\<forall>m \<in> set ms. usage_metadata m = Missing) \<Longrightarrow> last_usage ms u = u"
  by (induction ms arbitrary: u) simp_all

lemma last_usage_highest:
  assumes "k < length ms" and "usage_metadata (ms ! k) = Attr v"
    and "\<forall>j. k < j \<and> j < length ms \<longrightarrow> usage_metadata (ms ! j) = Missing"
  shows "last_usage ms u = v"
proof -
  have ms: "ms = take k ms @ (ms ! k) # drop (Suc k) ms"
    using assms(1) by (simp add: id_take_nth_drop)
  have "\<forall>m \<in> set (drop (Suc k) ms). usage_metadata m = Missing"
  proof
    fix m assume "m \<in> set (drop (Suc k) ms)"
    then obtain i where i: "i < length (drop (Suc k) ms)" "m = drop (Suc k) ms ! i"
      by (metis in_set_conv_nth)
    then have "m = ms ! (Suc k + i)" by simp
    moreover have "k < Suc k + i \<and> Suc k + i < length ms" using i(1) by simp
    ultimately show "usage_metadata m = Missing" using assms(3) by blast
  qed
  then have "last_usage (drop (Suc k) ms) v = v" by (rule last_usage_missing)
  then have "last_usage (take k ms @ (ms ! k) # drop (Suc k) ms) u = v"
    by (simp add: last_usage_append assms(2))
  with ms show ?thesis by simp
qed

lemma split_on_nonempty: "split_on sep s \<noteq> []"
  by (induction s) (auto split: list.splits)

lemma join_split_on: "join_with sep (split_on sep s) = s"
proof (induction s)
  case Nil
  then show ?case by simp
next
  case (Cons c cs)
  obtain l ls where ls: "split_on sep cs = l # ls"
    using split_on_nonempty [of sep cs] by (cases "split_on sep cs") auto
  show ?case
  proof (cases "c = sep")
    case True
    with Cons ls show ?thesis by simp
  next
    case False
    with Cons ls show ?thesis by (cases ls) auto
  qed
qed

lemma split_on_no_sep: "l \<in> set (split_on sep s) \<Longrightarrow> sep \<notin> set l"
proof (induction s arbitrary: l)
  case Nil
  then show ?case by simp
next
  case (Cons c cs)
  then show ?case by (auto split: if_splits list.splits)
qed

lemma split_on_single: "sep \<notin> set s \<Longrightarrow> split_on sep s = [s]"
  by (induction s) auto

lemma dropWhile_rev_dropWhile_Nil:
  "dropWhile P (rev (dropWhile P s)) = [] \<longleftrightarrow> (\<forall>c \<in> set s. P c)"
proof
  assume a: "dropWhile P (rev (dropWhile P s)) = []"
  have "dropWhile P s = []"
  proof (rule ccontr)
    assume ne: "dropWhile P s \<noteq> []"
    then have "\<not> P (hd (dropWhile P s))" by (rule hd_dropWhile)
    moreover have "hd (dropWhile P s) \<in> set (rev (dropWhile P s))"
      using ne by simp
    moreover from a have "\<forall>c \<in> set (rev (dropWhile P s)). P c"
      by (simp only: dropWhile_eq_Nil_conv)
    ultimately show False by blast
  qed
  then show "\<forall>c \<in> set s. P c" by (simp only: dropWhile_eq_Nil_conv)
next
  assume "\<forall>c \<in> set s. P c"
  then have "dropWhile P s = []" by (simp only: dropWhile_eq_Nil_conv)
  then show "dropWhile P (rev (dropWhile P s)) = []" by (simp only: rev.simps dropWhile.simps)
qed

lemma py_strip_empty: "py_strip s = [] \<longleftrightarrow> (\<forall>c \<in> set s. is_space c)"
  unfolding py_strip_def rev_is_Nil_conv by (rule dropWhile_rev_dropWhile_Nil)

lemma dropWhile_strip_split:
  "dropWhile is_space s = py_strip s @ rev (takeWhile is_space (rev (dropWhile is_space s)))"
proof -
  let ?d = "dropWhile is_space s"
  have "rev ?d = takeWhile is_space (rev ?d) @ dropWhile is_space (rev ?d)"
    by (simp only: takeWhile_dropWhile_id)
  then have "rev (rev ?d) = rev (takeWhile is_space (rev ?d) @ dropWhile is_space (rev ?d))"
    by (rule arg_cong)
  then show ?thesis
    by (simp only: rev_rev_ident rev_append py_strip_def)
qed

lemma py_strip_decompose:
  "\<exists>a b. s = a @ py_strip s @ b \<and> (\<forall>c \<in> set a. is_space c) \<and> (\<forall>c \<in> set b. is_space c)"
proof -
  let ?d = "dropWhile is_space s"
  let ?a = "takeWhile is_space s"
  let ?b = "rev (takeWhile is_space (rev ?d))"
  have "s = ?a @ ?d" by (simp only: takeWhile_dropWhile_id)
  with dropWhile_strip_split [of s] have s: "s = ?a @ py_strip s @ ?b" by simp
  have a: "\<forall>c \<in> set ?a. is_space c"
    by (auto dest: set_takeWhileD)
  have b: "\<forall>c \<in> set ?b. is_space c"
    by (auto dest: set_takeWhileD)
  from s a b show ?thesis by blast
qed

lemma py_strip_ends:
  assumes ne: "py_strip s \<noteq> []"
  shows "\<not> is_space (hd (py_strip s)) \<and> \<not> is_space (last (py_strip s))"
proof -
  let ?d = "dropWhile is_space s"
  let ?e = "dropWhile is_space (rev ?d)"
  from ne have e: "?e \<noteq> []" by (simp only: py_strip_def rev_is_Nil_conv not_False_eq_True)
  then have l: "\<not> is_space (hd ?e)" by (rule hd_dropWhile)
  from e have "last (py_strip s) = hd ?e" by (simp only: py_strip_def last_rev)
  with l have last: "\<not> is_space (last (py_strip s))" by simp
  have d: "?d \<noteq> []"
  proof
    assume "?d = []"
    then have "?e = []" by (simp only: rev.simps dropWhile.simps)
    with e show False by blast
  qed
  then have hd: "\<not> is_space (hd ?d)" by (rule hd_dropWhile)
  from ne dropWhile_strip_split [of s] have "hd ?d = hd (py_strip s)"
    by (metis hd_append2)
  with hd last show ?thesis by simp
qed

lemma print_answer_eq:
  "print_answer fa =
     Inr ((10 # BOLD @ BLUE @ [0x1F4AC] @ ascii '' Answer:'' @ RESET) #
          (case fa of
             None \<Rightarrow> [RED @ ascii ''   No response found'' @ RESET]
           | Some s \<Rightarrow>
               if s = [] then [RED @ ascii ''   No response found'' @ RESET]
               else map answer_line (split_on 10 s)))"
  by (cases fa) (simp_all add: print_answer_def)

lemma map_of_map_str: "map_of (map (\<lambda>(k, v). (k, f v)) d) key = map_option f (map_of d key)"
  by (induction d) auto

lemma usage_get_eq: "usage_get (Some d) key = Inr (show_tokens d key)"
  by (simp add: py_get_def show_tokens_def map_of_map_str split: option.splits)

lemma print_tokens_eq:
  "print_tokens u =
     Inr (case u of
            None \<Rightarrow> []
          | Some d \<Rightarrow>
              if d = [] then []
              else [PURPLE @ ascii ''   '' @ [0x2022] @ ascii '' Input tokens:'' @ RESET @
                      ascii '' '' @ show_tokens d (ascii ''input_tokens''),
                    PURPLE @ ascii ''   '' @ [0x2022] @ ascii '' Output tokens:'' @ RESET @
                      ascii '' '' @ show_tokens d (ascii ''output_tokens''),
                    PURPLE @ ascii ''   '' @ [0x2022] @ ascii '' Total tokens:'' @ RESET @
                      ascii '' '' @ show_tokens d (ascii ''total_tokens'')])"
  by (cases u) (simp_all add: print_tokens_def token_line_def usage_get_eq del: usage_get.simps)

lemma messages_of_single: "messages_of [(ascii ''messages'', ms)] = ms"
  by (simp add: messages_of_def py_get_def)

lemma messages_of_absent:
  "map_of response (ascii ''messages'') = None \<Longrightarrow> messages_of response = []"
  by (simp add: messages_of_def py_get_def)

lemma renderReport_total: "\<exists>out. renderReport r q mn ts = Inr out"
  by (simp add: renderReport_def print_metadata_def print_answer_eq print_tokens_eq)

lemma format_agent_response_render:
  "buildReport response = Inr r \<Longrightarrow>
   format_agent_response response q mn ts = renderReport r q mn ts"
  by (simp add: format_agent_response_def)

lemma buildReport_fields:
  fixes response :: "'tc response"
  shows "\<exists>r. buildReport response = Inr r \<and>
     finalAnswer r =
       (case List.find (\<lambda>m. content_text m \<noteq> None) (rev (messages_of response)) of
          None \<Rightarrow> None | Some m \<Rightarrow> content_text m) \<and>
     toolCallCount r = sum_list (map tool_call_len (messages_of response)) \<and>
     usage r = last_usage (messages_of response) None \<and>
     messageCount r = length (messages_of response)"
  by (simp add: buildReport_eq)

lemma content_text_Some: "content_text m \<noteq> None \<Longrightarrow> content m = Attr (content_text m)"
  by (auto simp: content_text_def split: attr.splits option.splits if_splits)

lemma sum_list_mset_eq:
  "mset xs = mset ys \<Longrightarrow> sum_list (map f xs) = sum_list (map (f :: 'a \<Rightarrow> nat) ys)"
proof -
  assume "mset xs = mset ys"
  then have "mset (map f xs) = mset (map f ys)" by (metis mset_map)
  then have "sum_mset (mset (map f xs)) = sum_mset (mset (map f ys))" by simp
  then show ?thesis by (simp only: sum_mset_sum_list)
qed

lemma sum_list_zero: "(\<forall>x \<in> set xs. f x = (0::nat)) \<Longrightarrow> sum_list (map f xs) = 0"
  by (induction xs) simp_all

lemma last_usage_none:
  "(\<forall>m \<in> set ms. usage_metadata m = Missing \<or> usage_metadata m = Attr None) \<Longrightarrow>
   last_usage ms None = None"
  by (induction ms) auto

lemma content_text_absent:
  "content m = Missing \<or> content m = Attr None \<or> content m = Attr (Some []) \<Longrightarrow>
   content_text m = None"
  by (auto simp: content_text_def)

lemma tool_call_len_absent:
  "tool_calls m = Missing \<or> tool_calls m = Attr None \<or> tool_calls m = Attr (Some []) \<Longrightarrow>
   tool_call_len m = 0"
  by (auto simp: tool_call_len_def)

lemma print_metadata_eq:
  "print_metadata r =
     Inr ((10 # BOLD @ BLUE @ [0x1F4CA] @ ascii '' Metadata:'' @ RESET) #
          (case usage r of
             None \<Rightarrow> []
           | Some d \<Rightarrow>
               if d = [] then []
               else [PURPLE @ ascii ''   '' @ [0x2022] @ ascii '' Input tokens:'' @ RESET @
                       ascii '' '' @ show_tokens d (ascii ''input_tokens''),
                     PURPLE @ ascii ''   '' @ [0x2022] @ ascii '' Output tokens:'' @ RESET @
                       ascii '' '' @ show_tokens d (ascii ''output_tokens''),
                     PURPLE @ ascii ''   '' @ [0x2022] @ ascii '' Total tokens:'' @ RESET @
                       ascii '' '' @ show_tokens d (ascii ''total_tokens'')]) @
          print_tool_calls (toolCallCount r) @ [print_total_messages (messageCount r)])"
  by (simp add: print_metadata_def print_tokens_eq)

lemma print_metadata_falsy:
  "\<not> truthy (usage r) \<Longrightarrow>
   print_metadata r =
     Inr ((10 # BOLD @ BLUE @ [0x1F4CA] @ ascii '' Metadata:'' @ RESET) #
          print_tool_calls (toolCallCount r) @ [print_total_messages (messageCount r)])"
  by (cases "usage r") (simp_all add: print_metadata_eq)

lemma renderReport_answer:
  "\<exists>answer metadata. print_answer (finalAnswer r) = Inr answer \<and>
     print_metadata r = Inr metadata \<and>
     renderReport r q mn ts =
       Inr (print_header @ print_timestamp ts mn @ print_question q @ answer @ metadata @
            [rule_line @ [10]])"
  by (simp add: renderReport_def print_answer_eq print_metadata_eq)

lemma content_text_nonempty: "content_text m = Some s \<Longrightarrow> s \<noteq> []"
  by (auto simp: content_text_def split: attr.splits option.splits if_splits)

lemma finalAnswer_nonempty:
  fixes response :: "'tc response"
  assumes "buildReport response = Inr r" and "finalAnswer r = Some s"
  shows "s \<noteq> []"
proof -
  let ?P = "\<lambda>m :: 'tc message. content_text m \<noteq> None"
  from assms(1) buildReport_fields [of response] have "finalAnswer r =
       (case List.find ?P (rev (messages_of response)) of
          None \<Rightarrow> None | Some m \<Rightarrow> content_text m)"
    by auto
  with assms(2) obtain m :: "'tc message" where "content_text m = Some s"
    by (auto split: option.splits)
  then show ?thesis by (rule content_text_nonempty)
qed

lemma answer_line_eq:
  "answer_line line =
     (if \<forall>c \<in> set line. is_space c then []
      else DARK_GREY @ ascii ''   '' @ py_strip line @ RESET)"
  by (simp add: answer_line_def py_strip_empty)

lemma py_strip_trimmed:
  "\<exists>a b. line = a @ py_strip line @ b \<and> (\<forall>c \<in> set a. is_space c) \<and>
     (\<forall>c \<in> set b. is_space c) \<and>
     (py_strip line = [] \<or>
      \<not> is_space (hd (py_strip line)) \<and> \<not> is_space (last (py_strip line)))"
  using py_strip_decompose [of line] py_strip_ends [of line] by blast

lemma decimal_value_str_nat: "decimal_value (str_nat n) = n"
proof (induction n rule: str_nat.induct)
  case (1 n)
  show ?case
  proof (cases "n < 10")
    case True
    then show ?thesis by (simp add: str_nat.simps [of n] decimal_value_def)
  next
    case False
    with 1 have "decimal_value (str_nat (n div 10)) = n div 10" by simp
    with False show ?thesis
      by (simp add: str_nat.simps [of n] decimal_value_def)
  qed
qed

lemma str_nat_digits: "c \<in> set (str_nat n) \<Longrightarrow> 48 \<le> c \<and> c \<le> 57"
proof (induction n rule: str_nat.induct)
  case (1 n)
  show ?case
  proof (cases "n < 10")
    case True
    with 1(2) show ?thesis by (simp add: str_nat.simps [of n])
  next
    case False
    with 1 show ?thesis by (auto simp: str_nat.simps [of n])
  qed
qed

lemma print_tool_calls_eq:
  "print_tool_calls n =
     (if n = 0 then []
      else [PURPLE @ ascii ''   '' @ [0x2022] @ ascii '' Tool calls made:'' @ RESET @
            ascii '' '' @ str_nat n])"
  by (simp add: print_tool_calls_def)

lemma split_on_prefix:
  "sep \<notin> set p \<Longrightarrow>
   split_on sep (p @ q) = (p @ hd (split_on sep q)) # tl (split_on sep q)"
proof (induction p)
  case Nil
  then show ?case using split_on_nonempty [of sep q] by simp
next
  case (Cons c p)
  then show ?case by simp
qed

section \<open>The claims\<close>

text \<open>
  C1. The report's final answer is the content of the highest-indexed message whose
  content is non-empty: it is what the scan of the reversed sequence finds first, it does
  not change when messages with empty or missing content are appended, and it is
  \<open>None\<close> when no message has non-empty content.
\<close>

theorem final_answer_highest_content:
  fixes response :: "'tc response"
  shows "\<exists>r. buildReport response = Inr r \<and>
     finalAnswer r =
       (case List.find (\<lambda>m. content_text m \<noteq> None) (rev (messages_of response)) of
          None \<Rightarrow> None | Some m \<Rightarrow> content_text m) \<and>
     (\<forall>k. k < length (messages_of response) \<and>
          content_text (messages_of response ! k) \<noteq> None \<and>
          (\<forall>j. k < j \<and> j < length (messages_of response) \<longrightarrow>
               content_text (messages_of response ! j) = None) \<longrightarrow>
          finalAnswer r \<noteq> None \<and> content (messages_of response ! k) = Attr (finalAnswer r)) \<and>
     ((\<forall>m \<in> set (messages_of response). content_text m = None) \<longrightarrow> finalAnswer r = None) \<and>
     (\<forall>later. (\<forall>m \<in> set later. content_text m = None) \<longrightarrow>
          (\<exists>r'. buildReport [(ascii ''messages'', messages_of response @ later)] = Inr r' \<and>
                finalAnswer r' = finalAnswer r))"
proof -
  let ?ms = "messages_of response"
  let ?P = "\<lambda>m :: 'tc message. content_text m \<noteq> None"
  let ?fa = "\<lambda>ms. case List.find ?P (rev ms) of None \<Rightarrow> None | Some m \<Rightarrow> content_text m"
  obtain r where r: "buildReport response = Inr r" and fa: "finalAnswer r = ?fa ?ms"
    using buildReport_fields [of response] by blast
  have high: "\<forall>k. k < length ?ms \<and> ?P (?ms ! k) \<and>
          (\<forall>j. k < j \<and> j < length ?ms \<longrightarrow> content_text (?ms ! j) = None) \<longrightarrow>
          finalAnswer r \<noteq> None \<and> content (?ms ! k) = Attr (finalAnswer r)"
  proof (intro allI impI)
    fix k
    assume a: "k < length ?ms \<and> ?P (?ms ! k) \<and>
          (\<forall>j. k < j \<and> j < length ?ms \<longrightarrow> content_text (?ms ! j) = None)"
    then have "List.find ?P (rev ?ms) = Some (?ms ! k)"
      by (intro find_rev_highest) auto
    with fa have eq: "finalAnswer r = content_text (?ms ! k)" by simp
    with a content_text_Some [of "?ms ! k"]
    show "finalAnswer r \<noteq> None \<and> content (?ms ! k) = Attr (finalAnswer r)" by simp
  qed
  have none: "(\<forall>m \<in> set ?ms. content_text m = None) \<longrightarrow> finalAnswer r = None"
  proof
    assume "\<forall>m \<in> set ?ms. content_text m = None"
    then have "\<forall>m \<in> set (rev ?ms). \<not> ?P m" by simp
    then have "List.find ?P (rev ?ms) = None" by (rule find_none)
    with fa show "finalAnswer r = None" by simp
  qed
  have later: "\<forall>later. (\<forall>m \<in> set later. content_text m = None) \<longrightarrow>
          (\<exists>r'. buildReport [(ascii ''messages'', ?ms @ later)] = Inr r' \<and>
                finalAnswer r' = finalAnswer r)"
  proof (intro allI impI)
    fix later :: "'tc message list"
    assume "\<forall>m \<in> set later. content_text m = None"
    then have "\<forall>m \<in> set later. \<not> ?P m" by simp
    then have f: "List.find ?P (rev (?ms @ later)) = List.find ?P (rev ?ms)"
      by (rule find_append_none)
    obtain r' where r': "buildReport [(ascii ''messages'', ?ms @ later)] = Inr r'"
      and fa': "finalAnswer r' = ?fa (?ms @ later)"
      using buildReport_fields [of "[(ascii ''messages'', ?ms @ later)]"]
      unfolding messages_of_single by blast
    from fa fa' f have "finalAnswer r' = finalAnswer r" by simp
    with r' show "\<exists>r'. buildReport [(ascii ''messages'', ?ms @ later)] = Inr r' \<and>
                finalAnswer r' = finalAnswer r" by blast
  qed
  from r fa high none later show ?thesis by blast
qed

theorem final_answer_highest_content_witness:
  "(\<exists>r r'. buildReport
          [(ascii ''messages'',
            [msg (Attr (Some (ascii ''thinking''))) Missing Missing,
             msg (Attr (Some (ascii ''42''))) Missing Missing,
             msg (Attr None) (Attr (Some [7])) Missing])] = Inr r \<and>
        finalAnswer r = Some (ascii ''42'') \<and>
        buildReport
          [(ascii ''messages'',
            [msg (Attr (Some (ascii ''thinking''))) Missing Missing,
             msg (Attr (Some (ascii ''42''))) Missing Missing,
             msg (Attr None) (Attr (Some [7])) Missing] @
            [msg (Attr (Some [])) Missing Missing, msg Missing Missing Missing])] = Inr r' \<and>
        finalAnswer r' = Some (ascii ''42'')) \<and>
   (\<exists>r. buildReport
          [(ascii ''messages'',
            [msg (Attr None) (Attr (Some [7])) Missing,
             msg (Attr (Some [])) Missing Missing,
             msg Missing Missing Missing])] = Inr r \<and>
        finalAnswer r = None)"
proof
  let ?ms = "[msg (Attr (Some (ascii ''thinking''))) Missing Missing,
             msg (Attr (Some (ascii ''42''))) Missing Missing,
             msg (Attr None) (Attr (Some [7])) Missing]"
  have ms: "messages_of [(ascii ''messages'', ?ms)] = ?ms" by (rule messages_of_single)
  obtain r where r: "buildReport [(ascii ''messages'', ?ms)] = Inr r"
    and high: "\<forall>k. k < length ?ms \<and> content_text (?ms ! k) \<noteq> None \<and>
          (\<forall>j. k < j \<and> j < length ?ms \<longrightarrow> content_text (?ms ! j) = None) \<longrightarrow>
          finalAnswer r \<noteq> None \<and> content (?ms ! k) = Attr (finalAnswer r)"
    and later: "\<forall>later. (\<forall>m \<in> set later. content_text m = None) \<longrightarrow>
          (\<exists>r'. buildReport [(ascii ''messages'', ?ms @ later)] = Inr r' \<and>
                finalAnswer r' = finalAnswer r)"
    using final_answer_highest_content [of "[(ascii ''messages'', ?ms)]"]
    unfolding ms by blast
  have h1: "1 < length ?ms" by simp
  have h2: "content_text (?ms ! 1) \<noteq> None" by (simp add: msg_def ascii_def content_text_def)
  have h3: "\<forall>j. 1 < j \<and> j < length ?ms \<longrightarrow> content_text (?ms ! j) = None"
  proof (intro allI impI)
    fix j assume "1 < j \<and> j < length ?ms"
    then have "j = 2" by simp
    then show "content_text (?ms ! j) = None" by (simp add: msg_def content_text_def)
  qed
  from high h1 h2 h3 have "content (?ms ! 1) = Attr (finalAnswer r)" by blast
  then have fa: "finalAnswer r = Some (ascii ''42'')" by (simp add: msg_def)
  let ?later = "[msg (Attr (Some [])) Missing Missing, msg Missing Missing Missing]"
  have "\<forall>m \<in> set ?later. content_text m = None"
    by (simp add: msg_def content_text_def)
  with later obtain r' where "buildReport [(ascii ''messages'', ?ms @ ?later)] = Inr r'"
    and "finalAnswer r' = finalAnswer r" by blast
  with r fa show "\<exists>r r'. buildReport [(ascii ''messages'', ?ms)] = Inr r \<and>
        finalAnswer r = Some (ascii ''42'') \<and>
        buildReport [(ascii ''messages'', ?ms @ ?later)] = Inr r' \<and>
        finalAnswer r' = Some (ascii ''42'')" by simp
next
  let ?ms = "[msg (Attr None) (Attr (Some [7])) Missing,
             msg (Attr (Some [])) Missing Missing,
             msg Missing Missing Missing]"
  have ms: "messages_of [(ascii ''messages'', ?ms)] = ?ms" by (rule messages_of_single)
  obtain r where r: "buildReport [(ascii ''messages'', ?ms)] = Inr r"
    and none: "(\<forall>m \<in> set ?ms. content_text m = None) \<longrightarrow> finalAnswer r = None"
    using final_answer_highest_content [of "[(ascii ''messages'', ?ms)]"]
    unfolding ms by blast
  have "\<forall>m \<in> set ?ms. content_text m = None" by (simp add: msg_def content_text_def)
  with none have "finalAnswer r = None" by blast
  with r show "\<exists>r. buildReport [(ascii ''messages'', ?ms)] = Inr r \<and> finalAnswer r = None"
    by blast
qed

text \<open>
  C2 (amended). The report's usage is the value of the \<open>usage_metadata\<close> attribute
  of the last message that has this attribute, whatever that value is (a record or
  \<open>None\<close>), never a sum: when one message has the attribute it is that message's
  value, when two have it the later one's, and it is \<open>None\<close> when no message has
  the attribute. As stated the claim fails: a later message whose attribute is
  \<open>None\<close> erases the record of an earlier one.
\<close>

theorem usage_last_attribute:
  fixes response :: "'tc response"
  shows "\<exists>r. buildReport response = Inr r \<and>
     (\<forall>k v. k < length (messages_of response) \<and>
          usage_metadata (messages_of response ! k) = Attr v \<and>
          (\<forall>j. k < j \<and> j < length (messages_of response) \<longrightarrow>
               usage_metadata (messages_of response ! j) = Missing) \<longrightarrow>
          usage r = v) \<and>
     (\<forall>k v. k < length (messages_of response) \<and>
          usage_metadata (messages_of response ! k) = Attr v \<and>
          (\<forall>j. j < length (messages_of response) \<and> j \<noteq> k \<longrightarrow>
               usage_metadata (messages_of response ! j) = Missing) \<longrightarrow>
          usage r = v) \<and>
     (\<forall>i k w v. i < k \<and> k < length (messages_of response) \<and>
          usage_metadata (messages_of response ! i) = Attr w \<and>
          usage_metadata (messages_of response ! k) = Attr v \<and>
          (\<forall>j. j < length (messages_of response) \<and> j \<noteq> i \<and> j \<noteq> k \<longrightarrow>
               usage_metadata (messages_of response ! j) = Missing) \<longrightarrow>
          usage r = v) \<and>
     ((\<forall>m \<in> set (messages_of response). usage_metadata m = Missing) \<longrightarrow> usage r = None)"
proof -
  let ?ms = "messages_of response"
  obtain r where r: "buildReport response = Inr r" and u: "usage r = last_usage ?ms None"
    using buildReport_fields [of response] by blast
  have last: "\<forall>k v. k < length ?ms \<and> usage_metadata (?ms ! k) = Attr v \<and>
          (\<forall>j. k < j \<and> j < length ?ms \<longrightarrow> usage_metadata (?ms ! j) = Missing) \<longrightarrow>
          usage r = v"
  proof (intro allI impI)
    fix k v
    assume "k < length ?ms \<and> usage_metadata (?ms ! k) = Attr v \<and>
          (\<forall>j. k < j \<and> j < length ?ms \<longrightarrow> usage_metadata (?ms ! j) = Missing)"
    then have "last_usage ?ms None = v"
      by (intro last_usage_highest [of k]) auto
    with u show "usage r = v" by simp
  qed
  have one: "\<forall>k v. k < length ?ms \<and> usage_metadata (?ms ! k) = Attr v \<and>
          (\<forall>j. j < length ?ms \<and> j \<noteq> k \<longrightarrow> usage_metadata (?ms ! j) = Missing) \<longrightarrow>
          usage r = v"
  proof (intro allI impI)
    fix k v
    assume a: "k < length ?ms \<and> usage_metadata (?ms ! k) = Attr v \<and>
          (\<forall>j. j < length ?ms \<and> j \<noteq> k \<longrightarrow> usage_metadata (?ms ! j) = Missing)"
    then have "\<forall>j. k < j \<and> j < length ?ms \<longrightarrow> usage_metadata (?ms ! j) = Missing"
      by simp
    with a last show "usage r = v" by blast
  qed
  have two: "\<forall>i k w v. i < k \<and> k < length ?ms \<and>
          usage_metadata (?ms ! i) = Attr w \<and> usage_metadata (?ms ! k) = Attr v \<and>
          (\<forall>j. j < length ?ms \<and> j \<noteq> i \<and> j \<noteq> k \<longrightarrow> usage_metadata (?ms ! j) = Missing) \<longrightarrow>
          usage r = v"
  proof (intro allI impI)
    fix i k w v
    assume a: "i < k \<and> k < length ?ms \<and>
          usage_metadata (?ms ! i) = Attr w \<and> usage_metadata (?ms ! k) = Attr v \<and>
          (\<forall>j. j < length ?ms \<and> j \<noteq> i \<and> j \<noteq> k \<longrightarrow> usage_metadata (?ms ! j) = Missing)"
    then have "\<forall>j. k < j \<and> j < length ?ms \<longrightarrow> usage_metadata (?ms ! j) = Missing"
      by simp
    with a last show "usage r = v" by blast
  qed
  have none: "(\<forall>m \<in> set ?ms. usage_metadata m = Missing) \<longrightarrow> usage r = None"
    using u last_usage_missing [of ?ms None] by simp
  from r last one two none show ?thesis by blast
qed

theorem usage_last_attribute_witness:
  "(\<exists>r. buildReport
          [(ascii ''messages'',
            [msg (Attr (Some (ascii ''thinking''))) Missing
               (Attr (Some [(ascii ''input_tokens'', 5), (ascii ''output_tokens'', 0),
                            (ascii ''total_tokens'', 5)])),
             msg (Attr None) (Attr (Some [7])) Missing,
             msg (Attr (Some (ascii ''done''))) Missing
               (Attr (Some [(ascii ''input_tokens'', 5), (ascii ''output_tokens'', 3),
                            (ascii ''total_tokens'', 8)]))])] = Inr r \<and>
        usage r = Some [(ascii ''input_tokens'', 5), (ascii ''output_tokens'', 3),
                        (ascii ''total_tokens'', 8)]) \<and>
   (\<exists>r. buildReport
          [(ascii ''messages'',
            [msg (Attr (Some (ascii ''done''))) Missing
               (Attr (Some [(ascii ''total_tokens'', 8)])),
             msg (Attr None) (Attr (Some [7])) Missing])] = Inr r \<and>
        usage r = Some [(ascii ''total_tokens'', 8)]) \<and>
   (\<exists>r. buildReport
          [(ascii ''messages'',
            [msg (Attr (Some (ascii ''hi''))) Missing Missing,
             msg (Attr None) (Attr (Some [7])) Missing])] = Inr r \<and>
        usage r = None)"
proof (intro conjI)
  let ?u1 = "Some [(ascii ''input_tokens'', 5 :: int), (ascii ''output_tokens'', 0),
                   (ascii ''total_tokens'', 5)]"
  let ?u2 = "Some [(ascii ''input_tokens'', 5 :: int), (ascii ''output_tokens'', 3),
                   (ascii ''total_tokens'', 8)]"
  let ?ms = "[msg (Attr (Some (ascii ''thinking''))) Missing (Attr ?u1),
             msg (Attr None) (Attr (Some [7])) Missing,
             msg (Attr (Some (ascii ''done''))) Missing (Attr ?u2)]"
  have ms: "messages_of [(ascii ''messages'', ?ms)] = ?ms" by (rule messages_of_single)
  obtain r where r: "buildReport [(ascii ''messages'', ?ms)] = Inr r"
    and two: "\<forall>i k w v. i < k \<and> k < length ?ms \<and>
          usage_metadata (?ms ! i) = Attr w \<and> usage_metadata (?ms ! k) = Attr v \<and>
          (\<forall>j. j < length ?ms \<and> j \<noteq> i \<and> j \<noteq> k \<longrightarrow> usage_metadata (?ms ! j) = Missing) \<longrightarrow>
          usage r = v"
    using usage_last_attribute [of "[(ascii ''messages'', ?ms)]"]
    unfolding ms by blast
  have h1: "(0::nat) < 2 \<and> 2 < length ?ms" by simp
  have h2: "usage_metadata (?ms ! 0) = Attr ?u1" by (simp add: msg_def)
  have h3: "usage_metadata (?ms ! 2) = Attr ?u2" by (simp add: msg_def)
  have h4: "\<forall>j. j < length ?ms \<and> j \<noteq> 0 \<and> j \<noteq> 2 \<longrightarrow> usage_metadata (?ms ! j) = Missing"
  proof (intro allI impI)
    fix j assume "j < length ?ms \<and> j \<noteq> 0 \<and> j \<noteq> 2"
    then have "j = 1" by auto
    then show "usage_metadata (?ms ! j) = Missing" by (simp add: msg_def)
  qed
  from two h1 h2 h3 h4 have "usage r = ?u2" by blast
  with r show "\<exists>r. buildReport [(ascii ''messages'', ?ms)] = Inr r \<and> usage r = ?u2"
    by blast
next
  let ?u = "Some [(ascii ''total_tokens'', 8 :: int)]"
  let ?ms = "[msg (Attr (Some (ascii ''done''))) Missing (Attr ?u),
             msg (Attr None) (Attr (Some [7])) Missing]"
  have ms: "messages_of [(ascii ''messages'', ?ms)] = ?ms" by (rule messages_of_single)
  obtain r where r: "buildReport [(ascii ''messages'', ?ms)] = Inr r"
    and one: "\<forall>k v. k < length ?ms \<and> usage_metadata (?ms ! k) = Attr v \<and>
          (\<forall>j. j < length ?ms \<and> j \<noteq> k \<longrightarrow> usage_metadata (?ms ! j) = Missing) \<longrightarrow>
          usage r = v"
    using usage_last_attribute [of "[(ascii ''messages'', ?ms)]"]
    unfolding ms by blast
  have h1: "0 < length ?ms" by simp
  have h2: "usage_metadata (?ms ! 0) = Attr ?u" by (simp add: msg_def)
  have h3: "\<forall>j. j < length ?ms \<and> j \<noteq> 0 \<longrightarrow> usage_metadata (?ms ! j) = Missing"
  proof (intro allI impI)
    fix j assume "j < length ?ms \<and> j \<noteq> 0"
    then have "j = 1" by auto
    then show "usage_metadata (?ms ! j) = Missing" by (simp add: msg_def)
  qed
  from one h1 h2 h3 have "usage r = ?u" by blast
  with r show "\<exists>r. buildReport [(ascii ''messages'', ?ms)] = Inr r \<and> usage r = ?u"
    by blast
next
  let ?ms = "[msg (Attr (Some (ascii ''hi''))) Missing Missing,
             msg (Attr None) (Attr (Some [7])) Missing]"
  have ms: "messages_of [(ascii ''messages'', ?ms)] = ?ms" by (rule messages_of_single)
  obtain r where r: "buildReport [(ascii ''messages'', ?ms)] = Inr r"
    and none: "(\<forall>m \<in> set ?ms. usage_metadata m = Missing) \<longrightarrow> usage r = None"
    using usage_last_attribute [of "[(ascii ''messages'', ?ms)]"]
    unfolding ms by blast
  have "\<forall>m \<in> set ?ms. usage_metadata m = Missing" by (simp add: msg_def)
  with none have "usage r = None" by blast
  with r show "\<exists>r. buildReport [(ascii ''messages'', ?ms)] = Inr r \<and> usage r = None"
    by blast
qed

theorem usage_last_record_counterexample:
  "usage_record
     (msg (Attr (Some (ascii ''thinking''))) Missing
        (Attr (Some [(ascii ''input_tokens'', 5), (ascii ''output_tokens'', 3),
                     (ascii ''total_tokens'', 8)]))) =
     Some [(ascii ''input_tokens'', 5), (ascii ''output_tokens'', 3),
           (ascii ''total_tokens'', 8)] \<and>
   usage_record (msg (Attr (Some (ascii ''done''))) Missing (Attr None)) = None \<and>
   buildReport
     [(ascii ''messages'',
       [msg (Attr (Some (ascii ''thinking''))) Missing
          (Attr (Some [(ascii ''input_tokens'', 5), (ascii ''output_tokens'', 3),
                       (ascii ''total_tokens'', 8)])),
        msg (Attr (Some (ascii ''done''))) Missing (Attr None)])] =
     Inr \<lparr>finalAnswer = Some (ascii ''done''), toolCallCount = 0, usage = None,
          messageCount = 2\<rparr>"
  by (simp add: usage_record_def msg_def buildReport_def py_get_def count_tool_calls_def
        get_usage_def ascii_def)

text \<open>
  C3. The report's tool-call count is the sum over the messages of the length of the
  tool-call list (0 for a missing attribute, \<open>None\<close> or the empty list); any
  reordering of the messages gives the same count, and the count is 0 when no message
  has tool calls.
\<close>

theorem tool_call_count_sum:
  fixes response :: "'tc response"
  shows "\<exists>r. buildReport response = Inr r \<and>
     toolCallCount r = sum_list (map tool_call_len (messages_of response)) \<and>
     (\<forall>response' :: 'tc response.
          mset (messages_of response') = mset (messages_of response) \<longrightarrow>
          (\<exists>r'. buildReport response' = Inr r' \<and> toolCallCount r' = toolCallCount r)) \<and>
     ((\<forall>m \<in> set (messages_of response). tool_call_len m = 0) \<longrightarrow> toolCallCount r = 0)"
proof -
  let ?ms = "messages_of response"
  obtain r where r: "buildReport response = Inr r"
    and n: "toolCallCount r = sum_list (map tool_call_len ?ms)"
    using buildReport_fields [of response] by blast
  have perm: "\<forall>response' :: 'tc response.
          mset (messages_of response') = mset ?ms \<longrightarrow>
          (\<exists>r'. buildReport response' = Inr r' \<and> toolCallCount r' = toolCallCount r)"
  proof (intro allI impI)
    fix response' :: "'tc response"
    assume p: "mset (messages_of response') = mset ?ms"
    obtain r' where r': "buildReport response' = Inr r'"
      and n': "toolCallCount r' = sum_list (map tool_call_len (messages_of response'))"
      using buildReport_fields [of response'] by blast
    from p have "sum_list (map tool_call_len (messages_of response')) =
        sum_list (map tool_call_len ?ms)"
      by (rule sum_list_mset_eq)
    with n n' have "toolCallCount r' = toolCallCount r" by simp
    with r' show "\<exists>r'. buildReport response' = Inr r' \<and> toolCallCount r' = toolCallCount r"
      by blast
  qed
  have zero: "(\<forall>m \<in> set ?ms. tool_call_len m = 0) \<longrightarrow> toolCallCount r = 0"
  proof
    assume "\<forall>m \<in> set ?ms. tool_call_len m = 0"
    then have "sum_list (map tool_call_len ?ms) = 0" by (rule sum_list_zero)
    with n show "toolCallCount r = 0" by simp
  qed
  from r n perm zero show ?thesis by blast
qed

theorem tool_call_count_sum_witness:
  "(\<exists>r r'. buildReport
          [(ascii ''messages'',
            [msg (Attr None) (Attr (Some [7, 8])) Missing,
             msg Missing (Attr None) Missing,
             msg (Attr (Some (ascii ''42''))) (Attr (Some [9])) Missing])] = Inr r \<and>
        toolCallCount r = 3 \<and>
        buildReport
          [(ascii ''messages'',
            [msg (Attr (Some (ascii ''42''))) (Attr (Some [9])) Missing,
             msg (Attr None) (Attr (Some [7, 8])) Missing,
             msg Missing (Attr None) Missing])] = Inr r' \<and>
        toolCallCount r' = 3) \<and>
   (\<exists>r. buildReport
          [(ascii ''messages'',
            [msg (Attr (Some (ascii ''hi''))) Missing Missing,
             msg Missing (Attr None) Missing,
             msg Missing (Attr (Some [])) Missing])] = Inr r \<and>
        toolCallCount r = 0)"
proof
  let ?ms = "[msg (Attr None) (Attr (Some [7, 8])) Missing,
             msg Missing (Attr None) Missing,
             msg (Attr (Some (ascii ''42''))) (Attr (Some [9])) Missing]"
  let ?ms' = "[msg (Attr (Some (ascii ''42''))) (Attr (Some [9])) Missing,
             msg (Attr None) (Attr (Some [7, 8])) Missing,
             msg Missing (Attr None) Missing]"
  have ms: "messages_of [(ascii ''messages'', ?ms)] = ?ms" by (rule messages_of_single)
  have ms': "messages_of [(ascii ''messages'', ?ms')] = ?ms'" by (rule messages_of_single)
  obtain r where r: "buildReport [(ascii ''messages'', ?ms)] = Inr r"
    and n: "toolCallCount r = sum_list (map tool_call_len ?ms)"
    and perm: "\<forall>response' :: nat response.
          mset (messages_of response') = mset ?ms \<longrightarrow>
          (\<exists>r'. buildReport response' = Inr r' \<and> toolCallCount r' = toolCallCount r)"
    using tool_call_count_sum [of "[(ascii ''messages'', ?ms)]"]
    unfolding ms by blast
  from n have n3: "toolCallCount r = 3" by (simp add: msg_def tool_call_len_def)
  have "mset (messages_of [(ascii ''messages'', ?ms')]) = mset ?ms"
    unfolding ms' by (simp add: ac_simps)
  with perm obtain r' where "buildReport [(ascii ''messages'', ?ms')] = Inr r'"
    and "toolCallCount r' = toolCallCount r" by blast
  with r n3 show "\<exists>r r'. buildReport [(ascii ''messages'', ?ms)] = Inr r \<and>
        toolCallCount r = 3 \<and> buildReport [(ascii ''messages'', ?ms')] = Inr r' \<and>
        toolCallCount r' = 3" by simp
next
  let ?ms = "[msg (Attr (Some (ascii ''hi''))) Missing Missing,
             msg Missing (Attr None) Missing,
             msg Missing (Attr (Some [])) Missing]"
  have ms: "messages_of [(ascii ''messages'', ?ms)] = ?ms" by (rule messages_of_single)
  obtain r where r: "buildReport [(ascii ''messages'', ?ms)] = Inr r"
    and zero: "(\<forall>m \<in> set ?ms. tool_call_len m = 0) \<longrightarrow> toolCallCount r = 0"
    using tool_call_count_sum [of "[(ascii ''messages'', ?ms)]"]
    unfolding ms by blast
  have "\<forall>m \<in> set ?ms. tool_call_len m = 0" by (simp add: msg_def tool_call_len_def)
  with zero have "toolCallCount r = 0" by blast
  with r show "\<exists>r. buildReport [(ascii ''messages'', ?ms)] = Inr r \<and> toolCallCount r = 0"
    by blast
qed

text \<open>
  C4. For every run whose message sequence is empty (the \<open>messages\<close> key holds the
  empty list, or is missing), the report has no final answer, a tool-call count of 0, no
  usage and a message count of 0.
\<close>

theorem empty_run_report:
  "messages_of response = [] \<Longrightarrow>
   buildReport response =
     Inr \<lparr>finalAnswer = None, toolCallCount = 0, usage = None, messageCount = 0\<rparr>"
  by (simp add: buildReport_eq)

theorem empty_run_report_witness:
  "messages_of [(ascii ''messages'', [] :: nat message list)] = [] \<and>
   buildReport [(ascii ''messages'', [] :: nat message list)] =
     Inr \<lparr>finalAnswer = None, toolCallCount = 0, usage = None, messageCount = 0\<rparr>"
  using empty_run_report [of "[(ascii ''messages'', [] :: nat message list)]"]
  by (simp add: messages_of_single)

text \<open>
  C5. The function raises nothing: for every response, whatever attributes its messages
  lack, the extraction yields a report and the rendering yields output. Messages without
  content give no final answer, messages without tool calls a count of 0, messages
  without usage metadata no usage, and the message count is the length of the sequence.
\<close>

theorem format_agent_response_total:
  fixes response :: "'tc response"
  shows "\<exists>r out. buildReport response = Inr r \<and>
     format_agent_response response q mn ts = Inr out \<and>
     messageCount r = length (messages_of response) \<and>
     ((\<forall>m \<in> set (messages_of response).
          content m = Missing \<or> content m = Attr None \<or> content m = Attr (Some [])) \<longrightarrow>
      finalAnswer r = None) \<and>
     ((\<forall>m \<in> set (messages_of response).
          tool_calls m = Missing \<or> tool_calls m = Attr None \<or> tool_calls m = Attr (Some [])) \<longrightarrow>
      toolCallCount r = 0) \<and>
     ((\<forall>m \<in> set (messages_of response).
          usage_metadata m = Missing \<or> usage_metadata m = Attr None) \<longrightarrow>
      usage r = None)"
proof -
  let ?ms = "messages_of response"
  let ?P = "\<lambda>m :: 'tc message. content_text m \<noteq> None"
  obtain r where r: "buildReport response = Inr r"
    and fa: "finalAnswer r =
       (case List.find ?P (rev ?ms) of None \<Rightarrow> None | Some m \<Rightarrow> content_text m)"
    and n: "toolCallCount r = sum_list (map tool_call_len ?ms)"
    and u: "usage r = last_usage ?ms None"
    and c: "messageCount r = length ?ms"
    using buildReport_fields [of response] by blast
  obtain out where "renderReport r q mn ts = Inr out"
    using renderReport_total by blast
  with r have out: "format_agent_response response q mn ts = Inr out"
    by (simp add: format_agent_response_def)
  have a: "(\<forall>m \<in> set ?ms.
          content m = Missing \<or> content m = Attr None \<or> content m = Attr (Some [])) \<longrightarrow>
      finalAnswer r = None"
  proof
    assume "\<forall>m \<in> set ?ms.
          content m = Missing \<or> content m = Attr None \<or> content m = Attr (Some [])"
    then have "\<forall>m \<in> set (rev ?ms). \<not> ?P m"
      using content_text_absent by (metis set_rev)
    then have "List.find ?P (rev ?ms) = None" by (rule find_none)
    with fa show "finalAnswer r = None" by simp
  qed
  have b: "(\<forall>m \<in> set ?ms.
          tool_calls m = Missing \<or> tool_calls m = Attr None \<or> tool_calls m = Attr (Some [])) \<longrightarrow>
      toolCallCount r = 0"
  proof
    assume "\<forall>m \<in> set ?ms.
          tool_calls m = Missing \<or> tool_calls m = Attr None \<or> tool_calls m = Attr (Some [])"
    then have "\<forall>m \<in> set ?ms. tool_call_len m = 0"
      using tool_call_len_absent by blast
    then have "sum_list (map tool_call_len ?ms) = 0" by (rule sum_list_zero)
    with n show "toolCallCount r = 0" by simp
  qed
  have d: "(\<forall>m \<in> set ?ms. usage_metadata m = Missing \<or> usage_metadata m = Attr None) \<longrightarrow>
      usage r = None"
    using u last_usage_none by metis
  from r out c a b d show ?thesis by blast
qed

theorem format_agent_response_total_witness:
  "\<exists>out. buildReport
          [(ascii ''messages'',
            [msg Missing Missing Missing,
             msg (Attr None) (Attr None) (Attr None),
             msg (Attr (Some [])) (Attr (Some [])) Missing])] =
        Inr \<lparr>finalAnswer = None, toolCallCount = 0, usage = None, messageCount = 3\<rparr> \<and>
      format_agent_response
          [(ascii ''messages'',
            [msg Missing Missing Missing,
             msg (Attr None) (Attr None) (Attr None),
             msg (Attr (Some [])) (Attr (Some [])) Missing])]
          (ascii ''why?'') (ascii ''gpt-4o-mini'') (ascii ''2025-01-01 00:00:00'') = Inr out"
proof -
  let ?ms = "[msg Missing Missing Missing,
             msg (Attr None) (Attr None) (Attr None),
             msg (Attr (Some [])) (Attr (Some [])) Missing]"
  have ms: "messages_of [(ascii ''messages'', ?ms)] = ?ms" by (rule messages_of_single)
  obtain r out where r: "buildReport [(ascii ''messages'', ?ms)] = Inr r"
    and out: "format_agent_response [(ascii ''messages'', ?ms)]
          (ascii ''why?'') (ascii ''gpt-4o-mini'') (ascii ''2025-01-01 00:00:00'') = Inr out"
    and c: "messageCount r = length ?ms"
    and a: "(\<forall>m \<in> set ?ms.
          content m = Missing \<or> content m = Attr None \<or> content m = Attr (Some [])) \<longrightarrow>
      finalAnswer r = None"
    and b: "(\<forall>m \<in> set ?ms.
          tool_calls m = Missing \<or> tool_calls m = Attr None \<or> tool_calls m = Attr (Some [])) \<longrightarrow>
      toolCallCount r = 0"
    and d: "(\<forall>m \<in> set ?ms. usage_metadata m = Missing \<or> usage_metadata m = Attr None) \<longrightarrow>
      usage r = None"
    using format_agent_response_total [of "[(ascii ''messages'', ?ms)]"
        "ascii ''why?''" "ascii ''gpt-4o-mini''" "ascii ''2025-01-01 00:00:00''"]
    unfolding ms by blast
  have "\<forall>m \<in> set ?ms.
          content m = Missing \<or> content m = Attr None \<or> content m = Attr (Some [])"
    by (simp add: msg_def)
  with a have 1: "finalAnswer r = None" by blast
  have "\<forall>m \<in> set ?ms.
          tool_calls m = Missing \<or> tool_calls m = Attr None \<or> tool_calls m = Attr (Some [])"
    by (simp add: msg_def)
  with b have 2: "toolCallCount r = 0" by blast
  have "\<forall>m \<in> set ?ms. usage_metadata m = Missing \<or> usage_metadata m = Attr None"
    by (simp add: msg_def)
  with d have 3: "usage r = None" by blast
  from c have 4: "messageCount r = 3" by simp
  from 1 2 3 4 have "r = \<lparr>finalAnswer = None, toolCallCount = 0, usage = None, messageCount = 3\<rparr>"
    by (cases r) simp
  with r out show ?thesis by blast
qed

text \<open>
  C6. After the answer heading, a final answer is written line by line (split at line
  breaks): a line of white space only as an empty line, any other line trimmed of
  leading and trailing white space behind the three-space indentation. Without a final
  answer the single line \<open>No response found\<close> is written.
\<close>

theorem answer_section_lines:
  fixes response :: "'tc response"
  shows "\<exists>r metadata. buildReport response = Inr r \<and> print_metadata r = Inr metadata \<and>
     format_agent_response response q mn ts =
       Inr (print_header @ print_timestamp ts mn @ print_question q @
            (10 # BOLD @ BLUE @ [0x1F4AC] @ ascii '' Answer:'' @ RESET) #
            (case finalAnswer r of
               None \<Rightarrow> [RED @ ascii ''   No response found'' @ RESET]
             | Some s \<Rightarrow>
                 map (\<lambda>line. if \<forall>c \<in> set line. is_space c then []
                             else DARK_GREY @ ascii ''   '' @ py_strip line @ RESET)
                   (split_on 10 s)) @
            metadata @ [rule_line @ [10]]) \<and>
     (\<forall>s. finalAnswer r = Some s \<longrightarrow>
          s \<noteq> [] \<and> join_with 10 (split_on 10 s) = s \<and>
          (\<forall>line \<in> set (split_on 10 s). 10 \<notin> set line)) \<and>
     (\<forall>line. \<exists>a b. line = a @ py_strip line @ b \<and> (\<forall>c \<in> set a. is_space c) \<and>
          (\<forall>c \<in> set b. is_space c) \<and>
          (py_strip line = [] \<or>
           \<not> is_space (hd (py_strip line)) \<and> \<not> is_space (last (py_strip line))))"
proof -
  obtain r where r: "buildReport response = Inr r"
    using buildReport_fields [of response] by blast
  obtain metadata where m: "print_metadata r = Inr metadata"
    by (simp add: print_metadata_eq)
  have ne: "\<forall>s. finalAnswer r = Some s \<longrightarrow> s \<noteq> []"
    using finalAnswer_nonempty [OF r] by blast
  have body: "print_answer (finalAnswer r) =
       Inr ((10 # BOLD @ BLUE @ [0x1F4AC] @ ascii '' Answer:'' @ RESET) #
            (case finalAnswer r of
               None \<Rightarrow> [RED @ ascii ''   No response found'' @ RESET]
             | Some s \<Rightarrow>
                 map (\<lambda>line. if \<forall>c \<in> set line. is_space c then []
                             else DARK_GREY @ ascii ''   '' @ py_strip line @ RESET)
                   (split_on 10 s)))"
  proof (cases "finalAnswer r")
    case None
    then show ?thesis by (simp add: print_answer_eq)
  next
    case (Some s)
    with ne have "s \<noteq> []" by blast
    with Some show ?thesis by (simp add: print_answer_eq answer_line_eq)
  qed
  have out: "format_agent_response response q mn ts =
       Inr (print_header @ print_timestamp ts mn @ print_question q @
            (10 # BOLD @ BLUE @ [0x1F4AC] @ ascii '' Answer:'' @ RESET) #
            (case finalAnswer r of
               None \<Rightarrow> [RED @ ascii ''   No response found'' @ RESET]
             | Some s \<Rightarrow>
                 map (\<lambda>line. if \<forall>c \<in> set line. is_space c then []
                             else DARK_GREY @ ascii ''   '' @ py_strip line @ RESET)
                   (split_on 10 s)) @
            metadata @ [rule_line @ [10]])"
    by (simp add: format_agent_response_def r renderReport_def body m)
  have split: "\<forall>s. finalAnswer r = Some s \<longrightarrow>
          s \<noteq> [] \<and> join_with 10 (split_on 10 s) = s \<and>
          (\<forall>line \<in> set (split_on 10 s). 10 \<notin> set line)"
    using ne join_split_on split_on_no_sep by blast
  from r m out split py_strip_trimmed show ?thesis by blast
qed

theorem answer_section_lines_witness:
  "(\<exists>metadata. format_agent_response
          [(ascii ''messages'',
            [msg (Attr None) (Attr (Some [7])) Missing,
             msg (Attr (Some (ascii ''  hi '' @ [10, 32, 9, 10, 9] @ ascii ''a b'' @ [13])))
               Missing Missing])]
          (ascii ''why?'') (ascii ''gpt-4o-mini'') (ascii ''2025-01-01 00:00:00'') =
        Inr (print_header @
             print_timestamp (ascii ''2025-01-01 00:00:00'') (ascii ''gpt-4o-mini'') @
             print_question (ascii ''why?'') @
             [10 # BOLD @ BLUE @ [0x1F4AC] @ ascii '' Answer:'' @ RESET,
              DARK_GREY @ ascii ''   hi'' @ RESET,
              [],
              DARK_GREY @ ascii ''   a b'' @ RESET] @
             metadata @ [rule_line @ [10]])) \<and>
   (\<exists>metadata. format_agent_response
          [(ascii ''messages'', [msg (Attr None) (Attr (Some [7])) Missing])]
          (ascii ''why?'') (ascii ''gpt-4o-mini'') (ascii ''2025-01-01 00:00:00'') =
        Inr (print_header @
             print_timestamp (ascii ''2025-01-01 00:00:00'') (ascii ''gpt-4o-mini'') @
             print_question (ascii ''why?'') @
             [10 # BOLD @ BLUE @ [0x1F4AC] @ ascii '' Answer:'' @ RESET,
              RED @ ascii ''   No response found'' @ RESET] @
             metadata @ [rule_line @ [10]]))"
proof
  let ?s = "ascii ''  hi '' @ [10, 32, 9, 10, 9] @ ascii ''a b'' @ [13]"
  let ?ms = "[msg (Attr None) (Attr (Some [7])) Missing, msg (Attr (Some ?s)) Missing Missing]"
  let ?q = "ascii ''why?''" and ?mn = "ascii ''gpt-4o-mini''"
  let ?ts = "ascii ''2025-01-01 00:00:00''"
  let ?emit = "\<lambda>line. if \<forall>c \<in> set line. is_space c then []
                             else DARK_GREY @ ascii ''   '' @ py_strip line @ RESET"
  obtain r metadata where r: "buildReport [(ascii ''messages'', ?ms)] = Inr r"
    and out: "format_agent_response [(ascii ''messages'', ?ms)] ?q ?mn ?ts =
       Inr (print_header @ print_timestamp ?ts ?mn @ print_question ?q @
            (10 # BOLD @ BLUE @ [0x1F4AC] @ ascii '' Answer:'' @ RESET) #
            (case finalAnswer r of
               None \<Rightarrow> [RED @ ascii ''   No response found'' @ RESET]
             | Some s \<Rightarrow> map ?emit (split_on 10 s)) @
            metadata @ [rule_line @ [10]])"
    using answer_section_lines [of "[(ascii ''messages'', ?ms)]" ?q ?mn ?ts] by blast
  have "buildReport [(ascii ''messages'', ?ms)] =
      Inr \<lparr>finalAnswer = Some ?s, toolCallCount = 1, usage = None, messageCount = 2\<rparr>"
    by (simp add: msg_def buildReport_def py_get_def count_tool_calls_def get_usage_def
          ascii_def)
  with r have fa: "finalAnswer r = Some ?s" by auto
  have lines: "split_on 10 ?s = [ascii ''  hi '', [32, 9], 9 # ascii ''a b'' @ [13]]"
    by (simp add: ascii_def)
  have e1: "?emit (ascii ''  hi '') = DARK_GREY @ ascii ''   hi'' @ RESET"
    by (simp add: ascii_def is_space_def py_strip_def)
  have e2: "?emit [32, 9] = []"
    by (simp add: is_space_def)
  have e3: "?emit (9 # ascii ''a b'' @ [13]) = DARK_GREY @ ascii ''   a b'' @ RESET"
    by (simp add: ascii_def is_space_def py_strip_def)
  from out fa lines e1 e2 e3
  have "format_agent_response [(ascii ''messages'', ?ms)] ?q ?mn ?ts =
        Inr (print_header @ print_timestamp ?ts ?mn @ print_question ?q @
             [10 # BOLD @ BLUE @ [0x1F4AC] @ ascii '' Answer:'' @ RESET,
              DARK_GREY @ ascii ''   hi'' @ RESET,
              [],
              DARK_GREY @ ascii ''   a b'' @ RESET] @
             metadata @ [rule_line @ [10]])"
    by simp
  then show "\<exists>metadata. format_agent_response [(ascii ''messages'', ?ms)] ?q ?mn ?ts =
        Inr (print_header @ print_timestamp ?ts ?mn @ print_question ?q @
             [10 # BOLD @ BLUE @ [0x1F4AC] @ ascii '' Answer:'' @ RESET,
              DARK_GREY @ ascii ''   hi'' @ RESET,
              [],
              DARK_GREY @ ascii ''   a b'' @ RESET] @
             metadata @ [rule_line @ [10]])"
    by blast
next
  let ?ms = "[msg (Attr None) (Attr (Some [7])) Missing]"
  let ?q = "ascii ''why?''" and ?mn = "ascii ''gpt-4o-mini''"
  let ?ts = "ascii ''2025-01-01 00:00:00''"
  let ?emit = "\<lambda>line. if \<forall>c \<in> set line. is_space c then []
                             else DARK_GREY @ ascii ''   '' @ py_strip line @ RESET"
  obtain r metadata where r: "buildReport [(ascii ''messages'', ?ms)] = Inr r"
    and out: "format_agent_response [(ascii ''messages'', ?ms)] ?q ?mn ?ts =
       Inr (print_header @ print_timestamp ?ts ?mn @ print_question ?q @
            (10 # BOLD @ BLUE @ [0x1F4AC] @ ascii '' Answer:'' @ RESET) #
            (case finalAnswer r of
               None \<Rightarrow> [RED @ ascii ''   No response found'' @ RESET]
             | Some s \<Rightarrow> map ?emit (split_on 10 s)) @
            metadata @ [rule_line @ [10]])"
    using answer_section_lines [of "[(ascii ''messages'', ?ms)]" ?q ?mn ?ts] by blast
  have "buildReport [(ascii ''messages'', ?ms)] =
      Inr \<lparr>finalAnswer = None, toolCallCount = 1, usage = None, messageCount = 1\<rparr>"
    by (simp add: msg_def buildReport_def py_get_def count_tool_calls_def get_usage_def)
  with r have fa: "finalAnswer r = None" by auto
  from out fa
  have "format_agent_response [(ascii ''messages'', ?ms)] ?q ?mn ?ts =
        Inr (print_header @ print_timestamp ?ts ?mn @ print_question ?q @
             [10 # BOLD @ BLUE @ [0x1F4AC] @ ascii '' Answer:'' @ RESET,
              RED @ ascii ''   No response found'' @ RESET] @
             metadata @ [rule_line @ [10]])"
    by simp
  then show "\<exists>metadata. format_agent_response [(ascii ''messages'', ?ms)] ?q ?mn ?ts =
        Inr (print_header @ print_timestamp ?ts ?mn @ print_question ?q @
             [10 # BOLD @ BLUE @ [0x1F4AC] @ ascii '' Answer:'' @ RESET,
              RED @ ascii ''   No response found'' @ RESET] @
             metadata @ [rule_line @ [10]])"
    by blast
qed

text \<open>
  C7 (amended). The metadata section: when the report's usage is a non-empty record, the
  input, output and total token counts are written, each as its value in decimal or as
  \<open>N/A\<close> when the record lacks the key; when the usage is \<open>None\<close> or the empty record no
  token line is written. The tool-call line is written exactly when the count is
  positive, and the message count is always written. As stated the claim fails for a
  usage that is present but empty.
\<close>

theorem metadata_section_lines:
  fixes response :: "'tc response"
  shows "\<exists>r answer. buildReport response = Inr r \<and>
     print_answer (finalAnswer r) = Inr answer \<and>
     format_agent_response response q mn ts =
       Inr (print_header @ print_timestamp ts mn @ print_question q @ answer @
            (10 # BOLD @ BLUE @ [0x1F4CA] @ ascii '' Metadata:'' @ RESET) #
            (case usage r of
               None \<Rightarrow> []
             | Some d \<Rightarrow>
                 if d = [] then []
                 else [PURPLE @ ascii ''   '' @ [0x2022] @ ascii '' Input tokens:'' @ RESET @
                         ascii '' '' @ show_tokens d (ascii ''input_tokens''),
                       PURPLE @ ascii ''   '' @ [0x2022] @ ascii '' Output tokens:'' @ RESET @
                         ascii '' '' @ show_tokens d (ascii ''output_tokens''),
                       PURPLE @ ascii ''   '' @ [0x2022] @ ascii '' Total tokens:'' @ RESET @
                         ascii '' '' @ show_tokens d (ascii ''total_tokens'')]) @
            (if toolCallCount r = 0 then []
             else [PURPLE @ ascii ''   '' @ [0x2022] @ ascii '' Tool calls made:'' @ RESET @
                   ascii '' '' @ str_nat (toolCallCount r)]) @
            [PURPLE @ ascii ''   '' @ [0x2022] @ ascii '' Total messages:'' @ RESET @
               ascii '' '' @ str_nat (messageCount r),
             rule_line @ [10]]) \<and>
     (\<forall>d key v. map_of d key = Some v \<longrightarrow> show_tokens d key = str_int v) \<and>
     (\<forall>d key. map_of d key = None \<longrightarrow> show_tokens d key = ascii ''N/A'') \<and>
     (\<forall>n. str_int (int n) = str_nat n \<and> decimal_value (str_nat n) = n)"
proof -
  obtain r where r: "buildReport response = Inr r"
    using buildReport_fields [of response] by blast
  obtain answer metadata where a: "print_answer (finalAnswer r) = Inr answer"
    and m: "print_metadata r = Inr metadata"
    and out: "renderReport r q mn ts =
       Inr (print_header @ print_timestamp ts mn @ print_question q @ answer @ metadata @
            [rule_line @ [10]])"
    using renderReport_answer [of r q mn ts] by blast
  from m have "metadata =
      (10 # BOLD @ BLUE @ [0x1F4CA] @ ascii '' Metadata:'' @ RESET) #
            (case usage r of
               None \<Rightarrow> []
             | Some d \<Rightarrow>
                 if d = [] then []
                 else [PURPLE @ ascii ''   '' @ [0x2022] @ ascii '' Input tokens:'' @ RESET @
                         ascii '' '' @ show_tokens d (ascii ''input_tokens''),
                       PURPLE @ ascii ''   '' @ [0x2022] @ ascii '' Output tokens:'' @ RESET @
                         ascii '' '' @ show_tokens d (ascii ''output_tokens''),
                       PURPLE @ ascii ''   '' @ [0x2022] @ ascii '' Total tokens:'' @ RESET @
                         ascii '' '' @ show_tokens d (ascii ''total_tokens'')]) @
            (if toolCallCount r = 0 then []
             else [PURPLE @ ascii ''   '' @ [0x2022] @ ascii '' Tool calls made:'' @ RESET @
                   ascii '' '' @ str_nat (toolCallCount r)]) @
            [PURPLE @ ascii ''   '' @ [0x2022] @ ascii '' Total messages:'' @ RESET @
               ascii '' '' @ str_nat (messageCount r)]"
    by (simp add: print_metadata_eq print_tool_calls_eq print_total_messages_def)
  with out r have fmt: "format_agent_response response q mn ts =
       Inr (print_header @ print_timestamp ts mn @ print_question q @ answer @
            (10 # BOLD @ BLUE @ [0x1F4CA] @ ascii '' Metadata:'' @ RESET) #
            (case usage r of
               None \<Rightarrow> []
             | Some d \<Rightarrow>
                 if d = [] then []
                 else [PURPLE @ ascii ''   '' @ [0x2022] @ ascii '' Input tokens:'' @ RESET @
                         ascii '' '' @ show_tokens d (ascii ''input_tokens''),
                       PURPLE @ ascii ''   '' @ [0x2022] @ ascii '' Output tokens:'' @ RESET @
                         ascii '' '' @ show_tokens d (ascii ''output_tokens''),
                       PURPLE @ ascii ''   '' @ [0x2022] @ ascii '' Total tokens:'' @ RESET @
                         ascii '' '' @ show_tokens d (ascii ''total_tokens'')]) @
            (if toolCallCount r = 0 then []
             else [PURPLE @ ascii ''   '' @ [0x2022] @ ascii '' Tool calls made:'' @ RESET @
                   ascii '' '' @ str_nat (toolCallCount r)]) @
            [PURPLE @ ascii ''   '' @ [0x2022] @ ascii '' Total messages:'' @ RESET @
               ascii '' '' @ str_nat (messageCount r),
             rule_line @ [10]])"
    by (simp add: format_agent_response_def)
  have s1: "\<forall>d key v. map_of d key = Some v \<longrightarrow> show_tokens d key = str_int v"
    by (simp add: show_tokens_def)
  have s2: "\<forall>d key. map_of d key = None \<longrightarrow> show_tokens d key = ascii ''N/A''"
    by (simp add: show_tokens_def)
  have s3: "\<forall>n. str_int (int n) = str_nat n \<and> decimal_value (str_nat n) = n"
    by (simp add: str_int_def decimal_value_str_nat)
  from r a fmt s1 s2 s3 show ?thesis by blast
qed

theorem metadata_section_lines_witness:
  "\<exists>answer. format_agent_response
          [(ascii ''messages'',
            [msg (Attr None) (Attr (Some [7]))
               (Attr (Some [(ascii ''input_tokens'', 12), (ascii ''total_tokens'', 15)])),
             msg (Attr (Some (ascii ''ok''))) Missing Missing])]
          (ascii ''why?'') (ascii ''gpt-4o-mini'') (ascii ''2025-01-01 00:00:00'') =
        Inr (print_header @
             print_timestamp (ascii ''2025-01-01 00:00:00'') (ascii ''gpt-4o-mini'') @
             print_question (ascii ''why?'') @ answer @
             [10 # BOLD @ BLUE @ [0x1F4CA] @ ascii '' Metadata:'' @ RESET,
              PURPLE @ ascii ''   '' @ [0x2022] @ ascii '' Input tokens:'' @ RESET @
                ascii '' 12'',
              PURPLE @ ascii ''   '' @ [0x2022] @ ascii '' Output tokens:'' @ RESET @
                ascii '' N/A'',
              PURPLE @ ascii ''   '' @ [0x2022] @ ascii '' Total tokens:'' @ RESET @
                ascii '' 15'',
              PURPLE @ ascii ''   '' @ [0x2022] @ ascii '' Tool calls made:'' @ RESET @
                ascii '' 1'',
              PURPLE @ ascii ''   '' @ [0x2022] @ ascii '' Total messages:'' @ RESET @
                ascii '' 2'',
              rule_line @ [10]])"
proof -
  let ?d = "[(ascii ''input_tokens'', 12 :: int), (ascii ''total_tokens'', 15)]"
  let ?ms = "[msg (Attr None) (Attr (Some [7])) (Attr (Some ?d)),
             msg (Attr (Some (ascii ''ok''))) Missing Missing]"
  let ?q = "ascii ''why?''" and ?mn = "ascii ''gpt-4o-mini''"
  let ?ts = "ascii ''2025-01-01 00:00:00''"
  obtain r answer where r: "buildReport [(ascii ''messages'', ?ms)] = Inr r"
    and out: "format_agent_response [(ascii ''messages'', ?ms)] ?q ?mn ?ts =
       Inr (print_header @ print_timestamp ?ts ?mn @ print_question ?q @ answer @
            (10 # BOLD @ BLUE @ [0x1F4CA] @ ascii '' Metadata:'' @ RESET) #
            (case usage r of
               None \<Rightarrow> []
             | Some d \<Rightarrow>
                 if d = [] then []
                 else [PURPLE @ ascii ''   '' @ [0x2022] @ ascii '' Input tokens:'' @ RESET @
                         ascii '' '' @ show_tokens d (ascii ''input_tokens''),
                       PURPLE @ ascii ''   '' @ [0x2022] @ ascii '' Output tokens:'' @ RESET @
                         ascii '' '' @ show_tokens d (ascii ''output_tokens''),
                       PURPLE @ ascii ''   '' @ [0x2022] @ ascii '' Total tokens:'' @ RESET @
                         ascii '' '' @ show_tokens d (ascii ''total_tokens'')]) @
            (if toolCallCount r = 0 then []
             else [PURPLE @ ascii ''   '' @ [0x2022] @ ascii '' Tool calls made:'' @ RESET @
                   ascii '' '' @ str_nat (toolCallCount r)]) @
            [PURPLE @ ascii ''   '' @ [0x2022] @ ascii '' Total messages:'' @ RESET @
               ascii '' '' @ str_nat (messageCount r),
             rule_line @ [10]])"
    using metadata_section_lines [of "[(ascii ''messages'', ?ms)]" ?q ?mn ?ts] by blast
  have "buildReport [(ascii ''messages'', ?ms)] =
      Inr \<lparr>finalAnswer = Some (ascii ''ok''), toolCallCount = 1, usage = Some ?d,
           messageCount = 2\<rparr>"
    by (simp add: msg_def buildReport_def py_get_def count_tool_calls_def get_usage_def
          ascii_def)
  with r have r': "r = \<lparr>finalAnswer = Some (ascii ''ok''), toolCallCount = 1,
      usage = Some ?d, messageCount = 2\<rparr>" by simp
  have t1: "show_tokens ?d (ascii ''input_tokens'') = ascii ''12''"
    by (simp add: show_tokens_def str_int_def str_nat.simps ascii_def)
  have t2: "show_tokens ?d (ascii ''output_tokens'') = ascii ''N/A''"
    by (simp add: show_tokens_def ascii_def)
  have t3: "show_tokens ?d (ascii ''total_tokens'') = ascii ''15''"
    by (simp add: show_tokens_def str_int_def str_nat.simps ascii_def)
  have n1: "str_nat (Suc 0) = ascii ''1''" and n2: "str_nat 2 = ascii ''2''"
    by (simp_all add: str_nat.simps ascii_def)
  have j: "\<And>a b. ascii '' '' @ ascii (a # b) = ascii (CHR '' '' # a # b)"
    by (simp add: ascii_def)
  from out show ?thesis
    unfolding r' by (simp add: t1 t2 t3 n1 n2 j)
qed

theorem metadata_section_lines_counterexample:
  "buildReport
     [(ascii ''messages'', [msg (Attr (Some (ascii ''hi''))) Missing (Attr (Some []))])] =
     Inr \<lparr>finalAnswer = Some (ascii ''hi''), toolCallCount = 0, usage = Some [],
          messageCount = 1\<rparr> \<and>
   format_agent_response
     [(ascii ''messages'', [msg (Attr (Some (ascii ''hi''))) Missing (Attr (Some []))])]
     (ascii ''why?'') (ascii ''gpt-4o-mini'') (ascii ''2025-01-01 00:00:00'') =
     Inr (print_header @
          print_timestamp (ascii ''2025-01-01 00:00:00'') (ascii ''gpt-4o-mini'') @
          print_question (ascii ''why?'') @
          [10 # BOLD @ BLUE @ [0x1F4AC] @ ascii '' Answer:'' @ RESET,
           DARK_GREY @ ascii ''   hi'' @ RESET,
           10 # BOLD @ BLUE @ [0x1F4CA] @ ascii '' Metadata:'' @ RESET,
           PURPLE @ ascii ''   '' @ [0x2022] @ ascii '' Total messages:'' @ RESET @
             ascii '' 1'',
           rule_line @ [10]])"
proof
  show b: "buildReport
     [(ascii ''messages'', [msg (Attr (Some (ascii ''hi''))) Missing (Attr (Some []))])] =
     Inr \<lparr>finalAnswer = Some (ascii ''hi''), toolCallCount = 0, usage = Some [],
          messageCount = 1\<rparr>"
    by (simp add: msg_def buildReport_def py_get_def count_tool_calls_def get_usage_def
          ascii_def)
  have a: "print_answer (Some (ascii ''hi'')) =
      Inr [10 # BOLD @ BLUE @ [0x1F4AC] @ ascii '' Answer:'' @ RESET,
           DARK_GREY @ ascii ''   hi'' @ RESET]"
    by (simp add: print_answer_def answer_line_def py_strip_def is_space_def ascii_def)
  show "format_agent_response
     [(ascii ''messages'', [msg (Attr (Some (ascii ''hi''))) Missing (Attr (Some []))])]
     (ascii ''why?'') (ascii ''gpt-4o-mini'') (ascii ''2025-01-01 00:00:00'') =
     Inr (print_header @
          print_timestamp (ascii ''2025-01-01 00:00:00'') (ascii ''gpt-4o-mini'') @
          print_question (ascii ''why?'') @
          [10 # BOLD @ BLUE @ [0x1F4AC] @ ascii '' Answer:'' @ RESET,
           DARK_GREY @ ascii ''   hi'' @ RESET,
           10 # BOLD @ BLUE @ [0x1F4CA] @ ascii '' Metadata:'' @ RESET,
           PURPLE @ ascii ''   '' @ [0x2022] @ ascii '' Total messages:'' @ RESET @
             ascii '' 1'',
           rule_line @ [10]])"
    unfolding format_agent_response_def b
    by (simp add: renderReport_def a print_metadata_def print_tokens_def
          print_tool_calls_def print_total_messages_def str_nat.simps)
       (simp add: ascii_def)
qed

text \<open>
  C8 (amended). The question is written verbatim in one piece behind a single
  three-space indentation: its first line is indented, every further line is written as
  it is. A question without a line break is thus written with each of its lines
  indented. As stated the claim fails for a question of two lines.
\<close>

theorem question_block:
  fixes response :: "'tc response"
  shows "\<exists>r rest. buildReport response = Inr r \<and>
     format_agent_response response q mn ts =
       Inr (print_header @ print_timestamp ts mn @
            [10 # BOLD @ BLUE @ [0x2753] @ ascii '' Question:'' @ RESET,
             DARK_GREY @ ascii ''   '' @ q @ RESET] @ rest) \<and>
     split_on 10 (ascii ''   '' @ q) =
       (ascii ''   '' @ hd (split_on 10 q)) # tl (split_on 10 q) \<and>
     (10 \<notin> set q \<longrightarrow> ascii ''   '' @ q = indent_lines q)"
proof -
  obtain r where r: "buildReport response = Inr r"
    using buildReport_fields [of response] by blast
  obtain answer metadata where
    "renderReport r q mn ts =
       Inr (print_header @ print_timestamp ts mn @ print_question q @ answer @ metadata @
            [rule_line @ [10]])"
    using renderReport_answer [of r q mn ts] by blast
  with r have out: "format_agent_response response q mn ts =
       Inr (print_header @ print_timestamp ts mn @
            [10 # BOLD @ BLUE @ [0x2753] @ ascii '' Question:'' @ RESET,
             DARK_GREY @ ascii ''   '' @ q @ RESET] @
            (answer @ metadata @ [rule_line @ [10]]))"
    by (simp add: format_agent_response_def print_question_def)
  have "10 \<notin> set (ascii ''   '')" by (simp add: ascii_def)
  then have first: "split_on 10 (ascii ''   '' @ q) =
       (ascii ''   '' @ hd (split_on 10 q)) # tl (split_on 10 q)"
    by (rule split_on_prefix)
  have single: "10 \<notin> set q \<longrightarrow> ascii ''   '' @ q = indent_lines q"
    by (simp add: indent_lines_def split_on_single)
  from r out first single show ?thesis by blast
qed

theorem question_block_witness:
  "\<exists>rest. format_agent_response
          [(ascii ''messages'', [msg (Attr (Some (ascii ''42''))) Missing Missing])]
          (ascii ''why?'') (ascii ''gpt-4o-mini'') (ascii ''2025-01-01 00:00:00'') =
        Inr (print_header @
             print_timestamp (ascii ''2025-01-01 00:00:00'') (ascii ''gpt-4o-mini'') @
             [10 # BOLD @ BLUE @ [0x2753] @ ascii '' Question:'' @ RESET,
              DARK_GREY @ indent_lines (ascii ''why?'') @ RESET] @ rest) \<and>
      indent_lines (ascii ''why?'') = ascii ''   why?''"
proof -
  let ?ms = "[msg (Attr (Some (ascii ''42''))) Missing Missing]"
  let ?q = "ascii ''why?''" and ?mn = "ascii ''gpt-4o-mini''"
  let ?ts = "ascii ''2025-01-01 00:00:00''"
  obtain r rest where
    out: "format_agent_response [(ascii ''messages'', ?ms)] ?q ?mn ?ts =
       Inr (print_header @ print_timestamp ?ts ?mn @
            [10 # BOLD @ BLUE @ [0x2753] @ ascii '' Question:'' @ RESET,
             DARK_GREY @ ascii ''   '' @ ?q @ RESET] @ rest)"
    and single: "10 \<notin> set ?q \<longrightarrow> ascii ''   '' @ ?q = indent_lines ?q"
    using question_block [of "[(ascii ''messages'', ?ms)]" ?q ?mn ?ts] by blast
  have "10 \<notin> set ?q" by (simp add: ascii_def)
  with single have eq: "ascii ''   '' @ ?q = indent_lines ?q" by blast
  then have "indent_lines ?q = ascii ''   why?''" by (simp add: ascii_def)
  with out eq show ?thesis by auto
qed

theorem question_block_counterexample:
  "format_agent_response ([] :: nat response)
       (ascii ''a'' @ 10 # ascii ''b'') (ascii ''m'') (ascii ''t'') =
     Inr (print_header @ print_timestamp (ascii ''t'') (ascii ''m'') @
          [10 # BOLD @ BLUE @ [0x2753] @ ascii '' Question:'' @ RESET,
           DARK_GREY @ ascii ''   a'' @ 10 # ascii ''b'' @ RESET,
           10 # BOLD @ BLUE @ [0x1F4AC] @ ascii '' Answer:'' @ RESET,
           RED @ ascii ''   No response found'' @ RESET,
           10 # BOLD @ BLUE @ [0x1F4CA] @ ascii '' Metadata:'' @ RESET,
           PURPLE @ ascii ''   '' @ [0x2022] @ ascii '' Total messages:'' @ RESET @ ascii '' 0'',
           rule_line @ [10]]) \<and>
   split_on 10 (DARK_GREY @ ascii ''   a'' @ 10 # ascii ''b'' @ RESET) =
     [DARK_GREY @ ascii ''   a'', ascii ''b'' @ RESET] \<and>
   indent_lines (ascii ''a'' @ 10 # ascii ''b'') = ascii ''   a'' @ 10 # ascii ''   b'' \<and>
   DARK_GREY @ ascii ''   a'' @ 10 # ascii ''b'' @ RESET \<noteq>
     DARK_GREY @ indent_lines (ascii ''a'' @ 10 # ascii ''b'') @ RESET"
proof (intro conjI)
  show "format_agent_response ([] :: nat response)
       (ascii ''a'' @ 10 # ascii ''b'') (ascii ''m'') (ascii ''t'') =
     Inr (print_header @ print_timestamp (ascii ''t'') (ascii ''m'') @
          [10 # BOLD @ BLUE @ [0x2753] @ ascii '' Question:'' @ RESET,
           DARK_GREY @ ascii ''   a'' @ 10 # ascii ''b'' @ RESET,
           10 # BOLD @ BLUE @ [0x1F4AC] @ ascii '' Answer:'' @ RESET,
           RED @ ascii ''   No response found'' @ RESET,
           10 # BOLD @ BLUE @ [0x1F4CA] @ ascii '' Metadata:'' @ RESET,
           PURPLE @ ascii ''   '' @ [0x2022] @ ascii '' Total messages:'' @ RESET @ ascii '' 0'',
           rule_line @ [10]])"
    by (simp add: format_agent_response_def buildReport_def py_get_def renderReport_def
        print_question_def print_answer_def print_metadata_def print_tokens_def
        print_tool_calls_def print_total_messages_def str_nat.simps ascii_def)
  show "split_on 10 (DARK_GREY @ ascii ''   a'' @ 10 # ascii ''b'' @ RESET) =
     [DARK_GREY @ ascii ''   a'', ascii ''b'' @ RESET]"
    by (simp add: DARK_GREY_def RESET_def ascii_def)
  show "indent_lines (ascii ''a'' @ 10 # ascii ''b'') = ascii ''   a'' @ 10 # ascii ''   b''"
    by (simp add: indent_lines_def ascii_def)
  show "DARK_GREY @ ascii ''   a'' @ 10 # ascii ''b'' @ RESET \<noteq>
     DARK_GREY @ indent_lines (ascii ''a'' @ 10 # ascii ''b'') @ RESET"
    by (simp add: indent_lines_def ascii_def)
qed

text \<open>
  C9. In the forward scan every message that has the \<open>usage_metadata\<close> attribute
  overwrites the accumulator, also with \<open>None\<close> or an empty record. When the last
  such message holds \<open>None\<close> or the empty record, that is the report's usage,
  whatever earlier messages carried, and the metadata section has no token lines: the
  heading is followed at once by the tool-call line (if any) and the message count.
\<close>

theorem usage_overwritten_by_empty:
  fixes response :: "'tc response"
  shows "(\<forall>(m :: 'tc message) rest n u v. usage_metadata m = Attr v \<longrightarrow>
            count_loop (m # rest) n u = count_loop rest (n + tool_call_len m) v) \<and>
     (\<exists>r. buildReport response = Inr r \<and>
        (\<forall>k v. k < length (messages_of response) \<and>
             usage_metadata (messages_of response ! k) = Attr v \<and>
             (v = None \<or> v = Some []) \<and>
             (\<forall>j. k < j \<and> j < length (messages_of response) \<longrightarrow>
                  usage_metadata (messages_of response ! j) = Missing) \<longrightarrow>
             usage r = v \<and>
             (\<exists>answer. print_answer (finalAnswer r) = Inr answer \<and>
                format_agent_response response q mn ts =
                  Inr (print_header @ print_timestamp ts mn @ print_question q @ answer @
                       (10 # BOLD @ BLUE @ [0x1F4CA] @ ascii '' Metadata:'' @ RESET) #
                       print_tool_calls (toolCallCount r) @
                       [print_total_messages (messageCount r), rule_line @ [10]]))))"
proof
  show "\<forall>(m :: 'tc message) rest n u v. usage_metadata m = Attr v \<longrightarrow>
            count_loop (m # rest) n u = count_loop rest (n + tool_call_len m) v"
    by (simp add: count_tool_calls_eq get_usage_eq)
next
  let ?ms = "messages_of response"
  obtain r where r: "buildReport response = Inr r" and u: "usage r = last_usage ?ms None"
    using buildReport_fields [of response] by blast
  obtain answer metadata where a: "print_answer (finalAnswer r) = Inr answer"
    and m: "print_metadata r = Inr metadata"
    and out: "renderReport r q mn ts =
       Inr (print_header @ print_timestamp ts mn @ print_question q @ answer @ metadata @
            [rule_line @ [10]])"
    using renderReport_answer [of r q mn ts] by blast
  have "\<forall>k v. k < length ?ms \<and> usage_metadata (?ms ! k) = Attr v \<and>
             (v = None \<or> v = Some []) \<and>
             (\<forall>j. k < j \<and> j < length ?ms \<longrightarrow> usage_metadata (?ms ! j) = Missing) \<longrightarrow>
             usage r = v \<and>
             (\<exists>answer. print_answer (finalAnswer r) = Inr answer \<and>
                format_agent_response response q mn ts =
                  Inr (print_header @ print_timestamp ts mn @ print_question q @ answer @
                       (10 # BOLD @ BLUE @ [0x1F4CA] @ ascii '' Metadata:'' @ RESET) #
                       print_tool_calls (toolCallCount r) @
                       [print_total_messages (messageCount r), rule_line @ [10]]))"
  proof (intro allI impI)
    fix k v
    assume h: "k < length ?ms \<and> usage_metadata (?ms ! k) = Attr v \<and>
             (v = None \<or> v = Some []) \<and>
             (\<forall>j. k < j \<and> j < length ?ms \<longrightarrow> usage_metadata (?ms ! j) = Missing)"
    then have "last_usage ?ms None = v"
      by (intro last_usage_highest [of k]) auto
    with u have v: "usage r = v" by simp
    with h have "\<not> truthy (usage r)" by auto
    then have "print_metadata r =
       Inr ((10 # BOLD @ BLUE @ [0x1F4CA] @ ascii '' Metadata:'' @ RESET) #
            print_tool_calls (toolCallCount r) @ [print_total_messages (messageCount r)])"
      by (rule print_metadata_falsy)
    with m have "metadata = (10 # BOLD @ BLUE @ [0x1F4CA] @ ascii '' Metadata:'' @ RESET) #
            print_tool_calls (toolCallCount r) @ [print_total_messages (messageCount r)]"
      by simp
    with out r have "format_agent_response response q mn ts =
                  Inr (print_header @ print_timestamp ts mn @ print_question q @ answer @
                       (10 # BOLD @ BLUE @ [0x1F4CA] @ ascii '' Metadata:'' @ RESET) #
                       print_tool_calls (toolCallCount r) @
                       [print_total_messages (messageCount r), rule_line @ [10]])"
      by (simp add: format_agent_response_def)
    with a v show "usage r = v \<and>
             (\<exists>answer. print_answer (finalAnswer r) = Inr answer \<and>
                format_agent_response response q mn ts =
                  Inr (print_header @ print_timestamp ts mn @ print_question q @ answer @
                       (10 # BOLD @ BLUE @ [0x1F4CA] @ ascii '' Metadata:'' @ RESET) #
                       print_tool_calls (toolCallCount r) @
                       [print_total_messages (messageCount r), rule_line @ [10]]))"
      by blast
  qed
  with r show "\<exists>r. buildReport response = Inr r \<and>
        (\<forall>k v. k < length ?ms \<and> usage_metadata (?ms ! k) = Attr v \<and>
             (v = None \<or> v = Some []) \<and>
             (\<forall>j. k < j \<and> j < length ?ms \<longrightarrow> usage_metadata (?ms ! j) = Missing) \<longrightarrow>
             usage r = v \<and>
             (\<exists>answer. print_answer (finalAnswer r) = Inr answer \<and>
                format_agent_response response q mn ts =
                  Inr (print_header @ print_timestamp ts mn @ print_question q @ answer @
                       (10 # BOLD @ BLUE @ [0x1F4CA] @ ascii '' Metadata:'' @ RESET) #
                       print_tool_calls (toolCallCount r) @
                       [print_total_messages (messageCount r), rule_line @ [10]])))"
    by blast
qed

theorem usage_overwritten_by_empty_witness:
  "\<exists>r. buildReport
          [(ascii ''messages'',
            [msg (Attr (Some (ascii ''thinking''))) (Attr (Some [7]))
               (Attr (Some [(ascii ''total_tokens'', 8)])),
             msg (Attr (Some (ascii ''done''))) Missing (Attr (Some [])),
             msg Missing Missing Missing])] = Inr r \<and>
        usage r = Some [] \<and>
        format_agent_response
          [(ascii ''messages'',
            [msg (Attr (Some (ascii ''thinking''))) (Attr (Some [7]))
               (Attr (Some [(ascii ''total_tokens'', 8)])),
             msg (Attr (Some (ascii ''done''))) Missing (Attr (Some [])),
             msg Missing Missing Missing])]
          (ascii ''why?'') (ascii ''gpt-4o-mini'') (ascii ''2025-01-01 00:00:00'') =
        Inr (print_header @
             print_timestamp (ascii ''2025-01-01 00:00:00'') (ascii ''gpt-4o-mini'') @
             print_question (ascii ''why?'') @
             [10 # BOLD @ BLUE @ [0x1F4AC] @ ascii '' Answer:'' @ RESET,
              DARK_GREY @ ascii ''   done'' @ RESET,
              10 # BOLD @ BLUE @ [0x1F4CA] @ ascii '' Metadata:'' @ RESET,
              PURPLE @ ascii ''   '' @ [0x2022] @ ascii '' Tool calls made:'' @ RESET @
                ascii '' 1'',
              PURPLE @ ascii ''   '' @ [0x2022] @ ascii '' Total messages:'' @ RESET @
                ascii '' 3'',
              rule_line @ [10]])"
proof -
  let ?ms = "[msg (Attr (Some (ascii ''thinking''))) (Attr (Some [7]))
               (Attr (Some [(ascii ''total_tokens'', 8)])),
             msg (Attr (Some (ascii ''done''))) Missing (Attr (Some [])),
             msg Missing Missing Missing]"
  let ?q = "ascii ''why?''" and ?mn = "ascii ''gpt-4o-mini''"
  let ?ts = "ascii ''2025-01-01 00:00:00''"
  have ms: "messages_of [(ascii ''messages'', ?ms)] = ?ms" by (rule messages_of_single)
  obtain r where r: "buildReport [(ascii ''messages'', ?ms)] = Inr r"
    and emp: "\<forall>k v. k < length ?ms \<and> usage_metadata (?ms ! k) = Attr v \<and>
             (v = None \<or> v = Some []) \<and>
             (\<forall>j. k < j \<and> j < length ?ms \<longrightarrow> usage_metadata (?ms ! j) = Missing) \<longrightarrow>
             usage r = v \<and>
             (\<exists>answer. print_answer (finalAnswer r) = Inr answer \<and>
                format_agent_response [(ascii ''messages'', ?ms)] ?q ?mn ?ts =
                  Inr (print_header @ print_timestamp ?ts ?mn @ print_question ?q @ answer @
                       (10 # BOLD @ BLUE @ [0x1F4CA] @ ascii '' Metadata:'' @ RESET) #
                       print_tool_calls (toolCallCount r) @
                       [print_total_messages (messageCount r), rule_line @ [10]]))"
    using usage_overwritten_by_empty [of "[(ascii ''messages'', ?ms)]" ?q ?mn ?ts]
    unfolding ms by blast
  have h1: "1 < length ?ms" by simp
  have h2: "usage_metadata (?ms ! 1) = Attr (Some [])" by (simp add: msg_def)
  have h3: "\<forall>j. 1 < j \<and> j < length ?ms \<longrightarrow> usage_metadata (?ms ! j) = Missing"
  proof (intro allI impI)
    fix j assume "1 < j \<and> j < length ?ms"
    then have "j = 2" by simp
    then show "usage_metadata (?ms ! j) = Missing" by (simp add: msg_def)
  qed
  from emp h1 h2 h3 obtain answer where u: "usage r = Some []"
    and a: "print_answer (finalAnswer r) = Inr answer"
    and out: "format_agent_response [(ascii ''messages'', ?ms)] ?q ?mn ?ts =
                  Inr (print_header @ print_timestamp ?ts ?mn @ print_question ?q @ answer @
                       (10 # BOLD @ BLUE @ [0x1F4CA] @ ascii '' Metadata:'' @ RESET) #
                       print_tool_calls (toolCallCount r) @
                       [print_total_messages (messageCount r), rule_line @ [10]])"
    by blast
  have "buildReport [(ascii ''messages'', ?ms)] =
      Inr \<lparr>finalAnswer = Some (ascii ''done''), toolCallCount = 1, usage = Some [],
           messageCount = 3\<rparr>"
    by (simp add: msg_def buildReport_def py_get_def count_tool_calls_def get_usage_def
          ascii_def)
  with r have r': "r = \<lparr>finalAnswer = Some (ascii ''done''), toolCallCount = 1,
      usage = Some [], messageCount = 3\<rparr>" by simp
  have "print_answer (Some (ascii ''done'')) =
      Inr [10 # BOLD @ BLUE @ [0x1F4AC] @ ascii '' Answer:'' @ RESET,
           DARK_GREY @ ascii ''   done'' @ RESET]"
    by (simp add: print_answer_def answer_line_def py_strip_def is_space_def ascii_def)
  with a r' have answer: "answer = [10 # BOLD @ BLUE @ [0x1F4AC] @ ascii '' Answer:'' @ RESET,
           DARK_GREY @ ascii ''   done'' @ RESET]" by simp
  have t: "print_tool_calls 1 =
      [PURPLE @ ascii ''   '' @ [0x2022] @ ascii '' Tool calls made:'' @ RESET @ ascii '' 1'']"
    by (simp add: print_tool_calls_def str_nat.simps ascii_def)
  have n: "print_total_messages 3 =
      PURPLE @ ascii ''   '' @ [0x2022] @ ascii '' Total messages:'' @ RESET @ ascii '' 3''"
    by (simp add: print_total_messages_def str_nat.simps ascii_def)
  from out r' answer t n have "format_agent_response [(ascii ''messages'', ?ms)] ?q ?mn ?ts =
        Inr (print_header @ print_timestamp ?ts ?mn @ print_question ?q @
             [10 # BOLD @ BLUE @ [0x1F4AC] @ ascii '' Answer:'' @ RESET,
              DARK_GREY @ ascii ''   done'' @ RESET,
              10 # BOLD @ BLUE @ [0x1F4CA] @ ascii '' Metadata:'' @ RESET,
              PURPLE @ ascii ''   '' @ [0x2022] @ ascii '' Tool calls made:'' @ RESET @
                ascii '' 1'',
              PURPLE @ ascii ''   '' @ [0x2022] @ ascii '' Total messages:'' @ RESET @
                ascii '' 3'',
              rule_line @ [10]])"
    by simp
  with r u show ?thesis by blast
qed

text \<open>
  C10. A response dictionary without the \<open>messages\<close> key is treated as one whose
  \<open>messages\<close> is the empty list: the report and everything written are the same, and
  nothing is raised.
\<close>

theorem missing_messages_key:
  fixes response :: "'tc response"
  shows "map_of response (ascii ''messages'') = None \<Longrightarrow>
   buildReport response = buildReport ([(ascii ''messages'', [])] :: 'tc response) \<and>
   buildReport response =
     Inr \<lparr>finalAnswer = None, toolCallCount = 0, usage = None, messageCount = 0\<rparr> \<and>
   format_agent_response response q mn ts =
     format_agent_response ([(ascii ''messages'', [])] :: 'tc response) q mn ts \<and>
   (\<exists>out. format_agent_response response q mn ts = Inr out)"
proof -
  assume a: "map_of response (ascii ''messages'') = None"
  then have m: "messages_of response = []" by (rule messages_of_absent)
  have b: "buildReport response = buildReport ([(ascii ''messages'', [])] :: 'tc response)"
    by (simp add: buildReport_eq m messages_of_single)
  have c: "buildReport response =
     Inr \<lparr>finalAnswer = None, toolCallCount = 0, usage = None, messageCount = 0\<rparr>"
    by (simp add: buildReport_eq m)
  have d: "format_agent_response response q mn ts =
     format_agent_response ([(ascii ''messages'', [])] :: 'tc response) q mn ts"
    by (simp add: format_agent_response_def b)
  obtain out where "renderReport \<lparr>finalAnswer = None, toolCallCount = 0, usage = None, messageCount = 0\<rparr> q mn ts = Inr out"
    using renderReport_total by blast
  then have "format_agent_response response q mn ts = Inr out"
    by (simp add: format_agent_response_def c)
  with b c d show ?thesis by blast
qed

theorem missing_messages_key_witness:
  "map_of [(ascii ''other'', [\<lparr>content = Attr (Some (ascii ''x'')), tool_calls = Missing :: nat list option attr, usage_metadata = Missing\<rparr>])] (ascii ''messages'') = None \<and>
   buildReport [(ascii ''other'', [\<lparr>content = Attr (Some (ascii ''x'')), tool_calls = Missing :: nat list option attr, usage_metadata = Missing\<rparr>])] =
     Inr \<lparr>finalAnswer = None, toolCallCount = 0, usage = None, messageCount = 0\<rparr>"
proof -
  have h: "map_of [(ascii ''other'', [\<lparr>content = Attr (Some (ascii ''x'')), tool_calls = Missing :: nat list option attr, usage_metadata = Missing\<rparr>])] (ascii ''messages'') = None"
    by (simp add: ascii_def)
  from missing_messages_key [OF h] h show ?thesis by blast
qed

end
